theory Spec2Isabelle
  imports Complex_Main "HOL-Library.Multiset" "HOL-Library.Log_Nat"
begin

section \<open>Enumerations\<close>

text \<open>
  The string enums of the repository. Each constructor stands for one member; the
  functions \<open>status_value\<close> and \<open>service_value\<close> give the string a member is stored
  and printed as (they are needed for the texts of the error messages).
\<close>

datatype OrderStatus =
  REQUESTED | PICKED_UP | IN_LAUNDRY | OUT_FOR_DELIVERY | DELIVERED | CANCELLED

datatype UserRole = CUSTOMER | DELIVERY | ADMIN

datatype ServiceType = WASHING | IRONING

datatype ClothingCategory = MEN | WOMEN | CHILDREN

fun status_value :: "OrderStatus \<Rightarrow> string" where
  "status_value REQUESTED = ''requested''"
| "status_value PICKED_UP = ''picked_up''"
| "status_value IN_LAUNDRY = ''in_laundry''"
| "status_value OUT_FOR_DELIVERY = ''out_for_delivery''"
| "status_value DELIVERED = ''delivered''"
| "status_value CANCELLED = ''cancelled''"

fun service_value :: "ServiceType \<Rightarrow> string" where
  "service_value WASHING = ''washing''"
| "service_value IRONING = ''ironing''"

definition all_statuses :: "OrderStatus list" where
  "all_statuses =
     [REQUESTED, PICKED_UP, IN_LAUNDRY, OUT_FOR_DELIVERY, DELIVERED, CANCELLED]"

section \<open>JavaScript numbers\<close>

text \<open>
  A JavaScript \<open>number\<close> is an IEEE 754 double: a finite value, given here by the
  rational it denotes, an infinity, or NaN. The two zeros are identified (the program
  only adds, multiplies and compares, which do not tell them apart). The values the
  program receives are doubles; the operations below round every result to a double.
\<close>

datatype number = Finite rat | PlusInfinity | MinusInfinity | NotANumber

text \<open>Rounding to the nearest integer, ties to the even one.\<close>

definition roundHalfEven :: "rat \<Rightarrow> int" where
  "roundHalfEven q =
     (let f = \<lfloor>q\<rfloor>; d = q - of_int f
      in if d < 1 / 2 then f else if 1 / 2 < d then f + 1 else if even f then f else f + 1)"

text \<open>
  The magnitude of the double nearest to a positive rational \<open>a\<close>. In units of the
  smallest subnormal, \<open>2\<^sup>-\<^sup>1\<^sup>0\<^sup>7\<^sup>4\<close>, a value below \<open>2\<^sup>5\<^sup>3\<close> is rounded to an
  integer; a larger one keeps its 53 leading bits (\<open>bitlen\<close> is the number of bits of
  an integer). The result \<open>2\<^sup>1\<^sup>0\<^sup>2\<^sup>4\<close> or more stands for overflow.
\<close>

definition roundMagnitude :: "rat \<Rightarrow> rat" where
  "roundMagnitude a =
     (let s = a * 2 ^ 1074;
          k = (if s < 2 ^ 53 then 0 else nat (bitlen \<lfloor>s\<rfloor> - 53));
          n = roundHalfEven (s / 2 ^ k)
      in of_int n * 2 ^ k / 2 ^ 1074)"

text \<open>The double nearest to a rational (round to nearest, ties to even).\<close>

definition toNumber :: "rat \<Rightarrow> number" where
  "toNumber x =
     (if x = 0 then Finite 0
      else (let r = roundMagnitude \<bar>x\<bar>
            in if 2 ^ 1024 \<le> r then (if 0 < x then PlusInfinity else MinusInfinity)
               else Finite (if 0 < x then r else - r)))"

text \<open>The operator \<open>+\<close> on numbers.\<close>

fun numAdd :: "number \<Rightarrow> number \<Rightarrow> number" where
  "numAdd NotANumber y = NotANumber"
| "numAdd x NotANumber = NotANumber"
| "numAdd PlusInfinity MinusInfinity = NotANumber"
| "numAdd MinusInfinity PlusInfinity = NotANumber"
| "numAdd PlusInfinity y = PlusInfinity"
| "numAdd x PlusInfinity = PlusInfinity"
| "numAdd MinusInfinity y = MinusInfinity"
| "numAdd x MinusInfinity = MinusInfinity"
| "numAdd (Finite a) (Finite b) = toNumber (a + b)"

text \<open>The operator \<open>*\<close> on numbers.\<close>

fun numMul :: "number \<Rightarrow> number \<Rightarrow> number" where
  "numMul NotANumber y = NotANumber"
| "numMul x NotANumber = NotANumber"
| "numMul (Finite a) (Finite b) = toNumber (a * b)"
| "numMul (Finite a) PlusInfinity =
     (if a = 0 then NotANumber else if 0 < a then PlusInfinity else MinusInfinity)"
| "numMul (Finite a) MinusInfinity =
     (if a = 0 then NotANumber else if 0 < a then MinusInfinity else PlusInfinity)"
| "numMul PlusInfinity (Finite b) =
     (if b = 0 then NotANumber else if 0 < b then PlusInfinity else MinusInfinity)"
| "numMul MinusInfinity (Finite b) =
     (if b = 0 then NotANumber else if 0 < b then MinusInfinity else PlusInfinity)"
| "numMul PlusInfinity PlusInfinity = PlusInfinity"
| "numMul MinusInfinity MinusInfinity = PlusInfinity"
| "numMul PlusInfinity MinusInfinity = MinusInfinity"
| "numMul MinusInfinity PlusInfinity = MinusInfinity"

text \<open>
  \<open>x >= m\<close> for a number \<open>x\<close> and a finite bound \<open>m\<close>; every comparison with NaN is
  false.
\<close>

fun numGe :: "number \<Rightarrow> rat \<Rightarrow> bool" where
  "numGe (Finite a) m = (m \<le> a)"
| "numGe PlusInfinity m = True"
| "numGe MinusInfinity m = False"
| "numGe NotANumber m = False"

text \<open>\<open>x || 0\<close> for a number \<open>x\<close>: NaN and 0 are falsy.\<close>

fun orZero :: "number \<Rightarrow> number" where
  "orZero NotANumber = Finite 0"
| "orZero x = x"

section \<open>The order status state machine (orders/enums/order-status.enum.ts)\<close>

text \<open>
  \<open>ORDER_STATUS_TRANSITIONS\<close> is a JavaScript object indexed by status; a lookup
  yields the array stored under the key, or \<open>undefined\<close> (here \<open>None\<close>) for a missing
  key. \<open>isValidStatusTransition\<close> is
  \<^verbatim>\<open>ORDER_STATUS_TRANSITIONS[currentStatus]?.includes(newStatus) ?? false\<close>.
\<close>

fun ORDER_STATUS_TRANSITIONS :: "OrderStatus \<Rightarrow> OrderStatus list option" where
  "ORDER_STATUS_TRANSITIONS REQUESTED = Some [PICKED_UP, CANCELLED]"
| "ORDER_STATUS_TRANSITIONS PICKED_UP = Some [IN_LAUNDRY, CANCELLED]"
| "ORDER_STATUS_TRANSITIONS IN_LAUNDRY = Some [OUT_FOR_DELIVERY]"
| "ORDER_STATUS_TRANSITIONS OUT_FOR_DELIVERY = Some [DELIVERED]"
| "ORDER_STATUS_TRANSITIONS DELIVERED = Some []"
| "ORDER_STATUS_TRANSITIONS CANCELLED = Some []"

definition isValidStatusTransition :: "OrderStatus \<Rightarrow> OrderStatus \<Rightarrow> bool" where
  "isValidStatusTransition currentStatus newStatus =
     (case ORDER_STATUS_TRANSITIONS currentStatus of
        None \<Rightarrow> False
      | Some targets \<Rightarrow> newStatus \<in> set targets)"

text \<open>
  The transition table as the specification words it (section 4.1), kept apart from the
  code's table so that the two can be compared.
\<close>

fun spec_transition_table :: "OrderStatus \<Rightarrow> OrderStatus set" where
  "spec_transition_table REQUESTED = {PICKED_UP, CANCELLED}"
| "spec_transition_table PICKED_UP = {IN_LAUNDRY, CANCELLED}"
| "spec_transition_table IN_LAUNDRY = {OUT_FOR_DELIVERY}"
| "spec_transition_table OUT_FOR_DELIVERY = {DELIVERED}"
| "spec_transition_table DELIVERED = {}"
| "spec_transition_table CANCELLED = {}"

section \<open>Data model (schemas and request bodies)\<close>

text \<open>
  Object ids are modelled as natural numbers (every id is well formed: the cast error of
  a malformed id string is outside this model) and dates as milliseconds since the
  epoch. Prices, quantities and amounts are JavaScript numbers. An optional field is an
  \<open>option\<close>.
\<close>

type_synonym ObjectId = nat
type_synonym Date = nat

datatype error =
    NotFoundException string
  | BadRequestException string
  | ForbiddenException string
  | MongooseValidationError
  | TypeError

record User =
  user_id :: ObjectId
  fullName :: string
  phoneNumber :: string
  role :: UserRole

record ClothingItem =
  item_id :: ObjectId
  name_en :: string
  item_category :: ClothingCategory

record Pricing =
  pr_clothingItem :: ObjectId
  pr_serviceType :: ServiceType
  pr_category :: ClothingCategory
  price :: number
  isActive :: bool

record OrderItemDto =
  clothingItemId :: ObjectId
  category :: ClothingCategory
  services :: "ServiceType list"
  quantity :: number

record OrderAddress =
  fullAddress :: string
  landmark :: "string option"
  contactPhone :: "string option"

record CreateOrderDto =
  dto_items :: "OrderItemDto list"
  dto_pickupAddress :: OrderAddress
  dto_deliveryAddress :: "OrderAddress option"
  dto_notes :: "string option"
  dto_scheduledPickupTime :: "Date option"

record UpdateOrderStatusDto =
  dto_status :: OrderStatus
  dto_note :: "string option"

record AssignDeliveryDto =
  deliveryPersonId :: ObjectId

record OrderItem =
  clothingItem :: ObjectId
  clothingItemName :: string
  oi_category :: ClothingCategory
  oi_services :: "ServiceType list"
  oi_quantity :: number
  unitPrice :: number
  subtotal :: number

record OrderPricing =
  itemsTotal :: number
  deliveryCharge :: number
  grandTotal :: number

record StatusHistoryEntry =
  entry_status :: OrderStatus
  timestamp :: Date
  entry_note :: string
  updatedBy :: ObjectId

record Order =
  order_id :: ObjectId
  customer :: ObjectId
  deliveryPerson :: "ObjectId option"
  items :: "OrderItem list"
  pricing :: OrderPricing
  pickupAddress :: OrderAddress
  deliveryAddress :: OrderAddress
  status :: OrderStatus
  statusHistory :: "StatusHistoryEntry list"
  order_notes :: "string option"
  scheduledPickupTime :: "Date option"
  estimatedDeliveryTime :: "Date option"
  createdAt :: Date
  updatedAt :: Date

text \<open>
  The database: one list of documents per collection, in insertion order. The order
  operations read the users and the catalog and write the orders only.
\<close>

record Database =
  users :: "User list"
  clothingItems :: "ClothingItem list"
  pricings :: "Pricing list"
  orders :: "Order list"

text \<open>
  A query result with populated references. \<open>populate\<close> replaces a reference by the
  referenced user document, or by \<open>null\<close> (\<open>None\<close>) when no such user is stored; here
  the order document is kept as it is and the looked-up documents stand beside it.
\<close>

record PopulatedOrder =
  doc :: Order
  customerDoc :: "User option"
  deliveryPersonDoc :: "User option"

record OrderStats =
  totalOrders :: nat
  pendingOrders :: nat
  inProgressOrders :: nat
  completedOrders :: nat
  cancelledOrders :: nat
  todayOrders :: nat
  todayRevenue :: number

section \<open>Collaborators: users and catalog\<close>

text \<open>\<open>UsersService.findById\<close>: the user document with this id, or \<open>null\<close>.\<close>

definition findUserById :: "User list \<Rightarrow> ObjectId \<Rightarrow> User option" where
  "findUserById us uid = find (\<lambda>u. user_id u = uid) us"

text \<open>\<open>CatalogService.getClothingItemById\<close> throws NotFound for an unknown id.\<close>

definition getClothingItemById :: "Database \<Rightarrow> ObjectId \<Rightarrow> error + ClothingItem" where
  "getClothingItemById db cid =
     (case find (\<lambda>c. item_id c = cid) (clothingItems db) of
        None \<Rightarrow> Inl (NotFoundException ''Clothing item not found'')
      | Some item \<Rightarrow> Inr item)"

text \<open>
  \<open>CatalogService.getItemPrice\<close>: the price of the first active pricing entry for the
  key (clothing item, service type, category); NotFound when there is none.
\<close>

definition getItemPrice ::
  "Database \<Rightarrow> ObjectId \<Rightarrow> ServiceType \<Rightarrow> ClothingCategory \<Rightarrow> error + number" where
  "getItemPrice db cid serviceType cat =
     (case find (\<lambda>p. pr_clothingItem p = cid \<and> pr_serviceType p = serviceType
                      \<and> pr_category p = cat \<and> isActive p) (pricings db) of
        None \<Rightarrow> Inl (NotFoundException ''Pricing not found for this item and service'')
      | Some p \<Rightarrow> Inr (price p))"

section \<open>OrdersService (orders/orders.service.ts)\<close>

definition findById :: "Order list \<Rightarrow> ObjectId \<Rightarrow> Order option" where
  "findById os oid = find (\<lambda>ord. order_id ord = oid) os"

text \<open>
  \<open>new this.orderModel(...)\<close> gives the document a new object id, one that no stored
  order has.
\<close>

definition fresh_id :: "Order list \<Rightarrow> ObjectId" where
  "fresh_id os = Suc (foldr max (map order_id os) 0)"

text \<open>\<open>save()\<close> of a document that is already stored writes it back under its id.\<close>

definition save_existing :: "Order list \<Rightarrow> Order \<Rightarrow> Order list" where
  "save_existing os ord' = map (\<lambda>ord. if order_id ord = order_id ord' then ord' else ord) os"

text \<open>
  The validators of orders/schemas/order.schema.ts, run by \<open>save()\<close> on a new document:
  \<open>min\<close> on the numbers (NaN is no number for the schema and fails as well),
  \<open>required\<close> on the strings (a required string must be non-empty). \<open>required\<close> on
  an array path (\<open>items\<close>, \<open>services\<close>) asks only that an array is there, which the
  service always supplies, so there is no conjunct for it.
\<close>

definition validateOrder :: "Order \<Rightarrow> bool" where
  "validateOrder ord =
     (list_all (\<lambda>it. clothingItemName it \<noteq> [] \<and> numGe (oi_quantity it) 1
                     \<and> numGe (unitPrice it) 0 \<and> numGe (subtotal it) 0) (items ord)
      \<and> numGe (itemsTotal (pricing ord)) 0
      \<and> numGe (deliveryCharge (pricing ord)) 0
      \<and> numGe (grandTotal (pricing ord)) 0
      \<and> fullAddress (pickupAddress ord) \<noteq> []
      \<and> fullAddress (deliveryAddress ord) \<noteq> [])"

subsection \<open>createOrder\<close>

text \<open>
  The inner loop of \<open>createOrder\<close> over \<open>item.services\<close>, with the running
  \<open>unitPrice\<close>. Any failure of the price lookup is caught and thrown again as a
  BadRequest that names the item and the service.
\<close>

fun priceServices ::
  "Database \<Rightarrow> ClothingItem \<Rightarrow> OrderItemDto \<Rightarrow> ServiceType list \<Rightarrow> number
     \<Rightarrow> error + number" where
  "priceServices db ci item [] unitSum = Inr unitSum"
| "priceServices db ci item (serviceType # rest) unitSum =
     (case getItemPrice db (clothingItemId item) serviceType (category item) of
        Inl _ \<Rightarrow> Inl (BadRequestException
                  (''Pricing not found for '' @ name_en ci @ '' - '' @ service_value serviceType))
      | Inr p \<Rightarrow> priceServices db ci item rest (numAdd unitSum p))"

text \<open>
  The outer loop over \<open>dto.items\<close>, with the running \<open>itemsWithPricing\<close> and
  \<open>itemsTotal\<close>.
\<close>

fun priceItems ::
  "Database \<Rightarrow> OrderItemDto list \<Rightarrow> OrderItem list \<Rightarrow> number
     \<Rightarrow> error + (OrderItem list \<times> number)" where
  "priceItems db [] itemsWithPricing runningTotal = Inr (itemsWithPricing, runningTotal)"
| "priceItems db (item # rest) itemsWithPricing runningTotal =
     (case getClothingItemById db (clothingItemId item) of
        Inl e \<Rightarrow> Inl e
      | Inr ci \<Rightarrow>
          (case priceServices db ci item (services item) (Finite 0) of
             Inl e \<Rightarrow> Inl e
           | Inr unitSum \<Rightarrow>
               (let sub = numMul unitSum (quantity item)
                in priceItems db rest
                     (itemsWithPricing @
                        [\<lparr>clothingItem = clothingItemId item,
                          clothingItemName = name_en ci,
                          oi_category = category item,
                          oi_services = services item,
                          oi_quantity = quantity item,
                          unitPrice = unitSum,
                          subtotal = sub\<rparr>])
                     (numAdd runningTotal sub))))"

text \<open>
  \<open>createOrder\<close>. \<open>cfg\<close> is \<open>Number\<close> of the configured
  \<open>DEFAULT_DELIVERY_CHARGE\<close> (NaN when it is no numeral; \<open>None\<close> when unset: the
  default 60 applies), \<open>now\<close> the value of \<open>new Date()\<close> and \<open>savedAt\<close>
  the clock when \<open>save()\<close> stamps \<open>createdAt\<close> and \<open>updatedAt\<close>. The result pairs
  the outcome with the database after the call.
\<close>

definition createOrder ::
  "number option \<Rightarrow> Date \<Rightarrow> Date \<Rightarrow> Database \<Rightarrow> ObjectId \<Rightarrow> CreateOrderDto
     \<Rightarrow> (error + Order) \<times> Database" where
  "createOrder cfg now savedAt db userId dto =
     (case priceItems db (dto_items dto) [] (Finite 0) of
        Inl e \<Rightarrow> (Inl e, db)
      | Inr (itemsWithPricing, runningTotal) \<Rightarrow>
          (let charge = (case cfg of None \<Rightarrow> Finite 60 | Some c \<Rightarrow> c);
               grand = numAdd runningTotal charge;
               ord = \<lparr>order_id = fresh_id (orders db),
                      customer = userId,
                      deliveryPerson = None,
                      items = itemsWithPricing,
                      pricing = \<lparr>itemsTotal = runningTotal, deliveryCharge = charge,
                                 grandTotal = grand\<rparr>,
                      pickupAddress = dto_pickupAddress dto,
                      deliveryAddress =
                        (case dto_deliveryAddress dto of
                           None \<Rightarrow> dto_pickupAddress dto
                         | Some a \<Rightarrow> a),
                      status = REQUESTED,
                      statusHistory =
                        [\<lparr>entry_status = REQUESTED, timestamp = now,
                          entry_note = ''Order placed'', updatedBy = userId\<rparr>],
                      order_notes = dto_notes dto,
                      scheduledPickupTime = dto_scheduledPickupTime dto,
                      estimatedDeliveryTime = None,
                      createdAt = savedAt,
                      updatedAt = savedAt\<rparr>
           in if validateOrder ord
              then (Inr ord, db\<lparr>orders := orders db @ [ord]\<rparr>)
              else (Inl MongooseValidationError, db)))"

subsection \<open>getOrderById\<close>

text \<open>
  The customer and the delivery person are populated before the permission check, which
  reads \<open>order.customer._id\<close> and \<open>order.deliveryPerson?._id\<close>: a customer reference
  that resolves to no user makes the first a TypeError, a missing delivery person only
  makes \<open>isDelivery\<close> false.
\<close>

definition getOrderById :: "Database \<Rightarrow> ObjectId \<Rightarrow> User \<Rightarrow> error + PopulatedOrder" where
  "getOrderById db orderId user =
     (case findById (orders db) orderId of
        None \<Rightarrow> Inl (NotFoundException ''Order not found'')
      | Some ord \<Rightarrow>
          (let cust = findUserById (users db) (customer ord);
               deliv = (case deliveryPerson ord of
                          None \<Rightarrow> None
                        | Some d \<Rightarrow> findUserById (users db) d);
               userId = user_id user
           in case cust of
                None \<Rightarrow> Inl TypeError
              | Some c \<Rightarrow>
                  (let isCustomer = (user_id c = userId);
                       isDelivery = (case deliv of
                                       None \<Rightarrow> False
                                     | Some d \<Rightarrow> user_id d = userId);
                       isAdmin = (role user = ADMIN)
                   in if \<not> isCustomer \<and> \<not> isDelivery \<and> \<not> isAdmin
                      then Inl (ForbiddenException ''Access denied to this order'')
                      else Inr \<lparr>doc = ord, customerDoc = cust,
                                deliveryPersonDoc = deliv\<rparr>)))"

subsection \<open>updateOrderStatus\<close>

text \<open>
  The checks in the order of the source: the order exists, the transition is valid, the
  caller is the assigned delivery person or an administrator. \<open>dto.note || ""\<close> is the
  note, or the empty string when none is given. Pushing the history entry modifies the
  document, so \<open>save()\<close> stamps \<open>updatedAt\<close>.
\<close>

definition updateOrderStatus ::
  "Date \<Rightarrow> Date \<Rightarrow> Database \<Rightarrow> ObjectId \<Rightarrow> UpdateOrderStatusDto \<Rightarrow> User
     \<Rightarrow> (error + Order) \<times> Database" where
  "updateOrderStatus now savedAt db orderId dto user =
     (case findById (orders db) orderId of
        None \<Rightarrow> (Inl (NotFoundException ''Order not found''), db)
      | Some ord \<Rightarrow>
          if \<not> isValidStatusTransition (status ord) (dto_status dto)
          then (Inl (BadRequestException
                  (''Invalid status transition from '' @ status_value (status ord)
                     @ '' to '' @ status_value (dto_status dto))), db)
          else
            (let userId = user_id user;
                 isDelivery = (deliveryPerson ord = Some userId);
                 isAdmin = (role user = ADMIN)
             in if \<not> isDelivery \<and> \<not> isAdmin
                then (Inl (ForbiddenException
                        ''Only delivery person or admin can update order status''), db)
                else
                  (let ord' = ord\<lparr>status := dto_status dto,
                                  statusHistory := statusHistory ord @
                                    [\<lparr>entry_status = dto_status dto,
                                      timestamp = now,
                                      entry_note = (case dto_note dto of
                                                None \<Rightarrow> [] | Some n \<Rightarrow> n),
                                      updatedBy = userId\<rparr>],
                                  updatedAt := savedAt\<rparr>
                   in (Inr ord', db\<lparr>orders := save_existing (orders db) ord'\<rparr>))))"

subsection \<open>assignDeliveryPerson\<close>

text \<open>
  \<open>save()\<close> stamps \<open>updatedAt\<close> when the document was modified, that is, when the
  assigned id differs from the one stored before.
\<close>

definition assignDeliveryPerson ::
  "Date \<Rightarrow> Database \<Rightarrow> ObjectId \<Rightarrow> AssignDeliveryDto \<Rightarrow> (error + Order) \<times> Database" where
  "assignDeliveryPerson savedAt db orderId dto =
     (case findById (orders db) orderId of
        None \<Rightarrow> (Inl (NotFoundException ''Order not found''), db)
      | Some ord \<Rightarrow>
          (case findUserById (users db) (deliveryPersonId dto) of
             None \<Rightarrow> (Inl (NotFoundException ''Delivery person not found''), db)
           | Some person \<Rightarrow>
               if role person \<noteq> DELIVERY
               then (Inl (BadRequestException ''User is not a delivery person''), db)
               else
                 (let ord' = ord\<lparr>deliveryPerson := Some (deliveryPersonId dto),
                                 updatedAt :=
                                   (if deliveryPerson ord = Some (deliveryPersonId dto)
                                    then updatedAt ord else savedAt)\<rparr>
                  in (Inr ord', db\<lparr>orders := save_existing (orders db) ord'\<rparr>))))"

subsection \<open>getUnassignedOrders\<close>

text \<open>
  The query \<open>{deliveryPerson: {$exists: false}, status: REQUESTED}\<close>, sorted by
  \<open>createdAt\<close> ascending, with the customer populated. Orders created at the same
  time stay in collection order here; nothing below depends on it.
\<close>

definition getUnassignedOrders :: "Database \<Rightarrow> PopulatedOrder list" where
  "getUnassignedOrders db =
     map (\<lambda>ord. \<lparr>doc = ord,
                  customerDoc = findUserById (users db) (customer ord),
                  deliveryPersonDoc = None\<rparr>)
       (sort_key createdAt
          (filter (\<lambda>ord. deliveryPerson ord = None \<and> status ord = REQUESTED) (orders db)))"

subsection \<open>getOrderStats\<close>

text \<open>
  The aggregation \<open>{$group: {_id: "$status", count: {$sum: 1}}}\<close>: one group per
  status that occurs, with the number of its orders.
\<close>

fun addToGroup :: "OrderStatus \<Rightarrow> (OrderStatus \<times> nat) list \<Rightarrow> (OrderStatus \<times> nat) list" where
  "addToGroup s [] = [(s, 1)]"
| "addToGroup s ((k, c) # gs) =
     (if k = s then (k, c + 1) # gs else (k, c) # addToGroup s gs)"

definition groupByStatus :: "Order list \<Rightarrow> (OrderStatus \<times> nat) list" where
  "groupByStatus os = foldl (\<lambda>gs ord. addToGroup (status ord) gs) [] os"

text \<open>
  \<open>stats.reduce((acc, item) => { acc[item._id] = item.count; return acc }, {})\<close>: the
  object \<open>statusCounts\<close> as an association list in insertion order; assigning to a key
  that is present overwrites its value in place.
\<close>

fun assign_key :: "OrderStatus \<Rightarrow> nat \<Rightarrow> (OrderStatus \<times> nat) list \<Rightarrow> (OrderStatus \<times> nat) list" where
  "assign_key k v [] = [(k, v)]"
| "assign_key k v ((k', v') # acc) =
     (if k' = k then (k, v) # acc else (k', v') # assign_key k v acc)"

definition statusCountsOf :: "(OrderStatus \<times> nat) list \<Rightarrow> (OrderStatus \<times> nat) list" where
  "statusCountsOf stats = foldl (\<lambda>acc (k, c). assign_key k c acc) [] stats"

text \<open>\<open>statusCounts[key] || 0\<close>.\<close>

definition countOr0 :: "(OrderStatus \<times> nat) list \<Rightarrow> OrderStatus \<Rightarrow> nat" where
  "countOr0 statusCounts k = (case map_of statusCounts k of None \<Rightarrow> 0 | Some c \<Rightarrow> c)"

text \<open>
  \<open>getOrderStats\<close>; \<open>today\<close> is the start of the current day. The second aggregation
  yields no group when no order matches, and otherwise one group with the number of
  today's orders and the \<open>$sum\<close> of their grand totals. That sum is computed by the
  database, not by the service: \<open>dbSum\<close> stands for it.
\<close>

definition getOrderStats ::
  "Date \<Rightarrow> (number list \<Rightarrow> number) \<Rightarrow> Database \<Rightarrow> OrderStats" where
  "getOrderStats today dbSum db =
     (let stats = groupByStatus (orders db);
          todayMatch = filter (\<lambda>ord. today \<le> createdAt ord) (orders db);
          statusCounts = statusCountsOf stats
      in \<lparr>totalOrders = foldl (+) 0 (map snd statusCounts),
          pendingOrders = countOr0 statusCounts REQUESTED,
          inProgressOrders =
            countOr0 statusCounts PICKED_UP + countOr0 statusCounts IN_LAUNDRY
              + countOr0 statusCounts OUT_FOR_DELIVERY,
          completedOrders = countOr0 statusCounts DELIVERED,
          cancelledOrders = countOr0 statusCounts CANCELLED,
          todayOrders = length todayMatch,
          todayRevenue =
            (if todayMatch = [] then Finite 0
             else orZero (dbSum (map (\<lambda>ord. grandTotal (pricing ord)) todayMatch)))\<rparr>)"

section \<open>Reachable databases\<close>

text \<open>
  One operation of the orders service that writes: creating an order, updating a status,
  assigning a delivery person, with any arguments and whether it succeeds or fails.
\<close>

inductive step :: "Database \<Rightarrow> Database \<Rightarrow> bool" where
  create: "createOrder cfg now savedAt db userId dto = (r, db') \<Longrightarrow> step db db'"
| update: "updateOrderStatus now savedAt db orderId sdto user = (r, db') \<Longrightarrow> step db db'"
| assign: "assignDeliveryPerson savedAt db orderId adto = (r, db') \<Longrightarrow> step db db'"

text \<open>
  The databases the service can be in: it starts with no orders; an operation leads from
  one to the next; what happens elsewhere (user and catalog administration) leaves the
  orders as they are.
\<close>

inductive reachable :: "Database \<Rightarrow> bool" where
  initial: "orders db = [] \<Longrightarrow> reachable db"
| operation: "reachable db \<Longrightarrow> step db db' \<Longrightarrow> reachable db'"
| elsewhere: "reachable db \<Longrightarrow> orders db' = orders db \<Longrightarrow> reachable db'"

text \<open>
  The history invariant of an order: there is a first entry, it is the \<open>REQUESTED\<close>
  entry with note "Order placed" written by the customer, and the last entry carries the
  current status.
\<close>

definition historyOk :: "Order \<Rightarrow> bool" where
  "historyOk ord =
     (1 \<le> length (statusHistory ord)
      \<and> entry_status (hd (statusHistory ord)) = REQUESTED
      \<and> entry_note (hd (statusHistory ord)) = ''Order placed''
      \<and> updatedBy (hd (statusHistory ord)) = customer ord
      \<and> entry_status (last (statusHistory ord)) = status ord)"

text \<open>The history entry that a status update appends.\<close>

definition statusEntry :: "Date \<Rightarrow> UpdateOrderStatusDto \<Rightarrow> User \<Rightarrow> StatusHistoryEntry" where
  "statusEntry now dto user =
     \<lparr>entry_status = dto_status dto, timestamp = now,
      entry_note = (case dto_note dto of None \<Rightarrow> [] | Some n \<Rightarrow> n),
      updatedBy = user_id user\<rparr>"

text \<open>The invariant of the orders collection: ids are unique and every history is in order.\<close>

definition storeOk :: "Database \<Rightarrow> bool" where
  "storeOk db = (distinct (map order_id (orders db)) \<and> (\<forall>ord \<in> set (orders db). historyOk ord))"

section \<open>Predicates of the specification\<close>

text \<open>
  A key (clothing item, service type, category) has no active price when no pricing
  entry of the catalog is active for it.
\<close>

definition noActivePrice :: "Database \<Rightarrow> ObjectId \<Rightarrow> ServiceType \<Rightarrow> ClothingCategory \<Rightarrow> bool" where
  "noActivePrice db cid serviceType cat =
     list_all (\<lambda>p. \<not> (pr_clothingItem p = cid \<and> pr_serviceType p = serviceType
                        \<and> pr_category p = cat \<and> isActive p)) (pricings db)"

text \<open>The validation error of \<open>createOrder\<close> for an item name and a service type.\<close>

definition pricingError :: "string \<Rightarrow> ServiceType \<Rightarrow> error" where
  "pricingError itemName serviceType =
     BadRequestException (''Pricing not found for '' @ itemName @ '' - '' @ service_value serviceType)"

text \<open>
  An order line that is the priced form of a request line: the clothing item exists, every
  requested service has a price, the line copies the request and the item's name, the
  unit price is the sum of the prices (added from the left, starting at 0) and the
  subtotal is the unit price times the quantity.
\<close>

definition pricedLine :: "Database \<Rightarrow> OrderItemDto \<Rightarrow> OrderItem \<Rightarrow> bool" where
  "pricedLine db line it =
     (\<exists>ci ps.
        getClothingItemById db (clothingItemId line) = Inr ci
        \<and> map (\<lambda>s. getItemPrice db (clothingItemId line) s (category line)) (services line)
            = map Inr ps
        \<and> it = \<lparr>clothingItem = clothingItemId line, clothingItemName = name_en ci,
                  oi_category = category line, oi_services = services line,
                  oi_quantity = quantity line,
                  unitPrice = foldl numAdd (Finite 0) ps,
                  subtotal = numMul (foldl numAdd (Finite 0) ps) (quantity line)\<rparr>)"

text \<open>
  A request line is in order when its clothing item exists and each of its services has
  an active price.
\<close>

definition lineOk :: "Database \<Rightarrow> OrderItemDto \<Rightarrow> bool" where
  "lineOk db l =
     (case getClothingItemById db (clothingItemId l) of
        Inl e \<Rightarrow> False
      | Inr ci \<Rightarrow>
          list_all (\<lambda>s. \<not> noActivePrice db (clothingItemId l) s (category l)) (services l))"

text \<open>The number of stored orders in a given status.\<close>

definition countWithStatus :: "Database \<Rightarrow> OrderStatus \<Rightarrow> nat" where
  "countWithStatus db s = length (filter (\<lambda>ord. status ord = s) (orders db))"

text \<open>The filter of the unassigned-orders listing: no delivery person, status \<open>REQUESTED\<close>.\<close>

definition isUnassignedRequest :: "Order \<Rightarrow> bool" where
  "isUnassignedRequest ord = (deliveryPerson ord = None \<and> status ord = REQUESTED)"

section \<open>Example data\<close>

text \<open>
  A small database for the concrete instances below: a customer, an assigned and an
  unassigned delivery person, an administrator, and the shirt of the specification's
  pricing scenario (washing 40, ironing 25, for men).
\<close>

definition alice :: User where
  "alice = \<lparr>user_id = 1, fullName = ''Alice'', phoneNumber = ''01712345678'', role = CUSTOMER\<rparr>"

definition dan :: User where
  "dan = \<lparr>user_id = 2, fullName = ''Dan'', phoneNumber = ''01812345678'', role = DELIVERY\<rparr>"

definition adam :: User where
  "adam = \<lparr>user_id = 3, fullName = ''Adam'', phoneNumber = ''01912345678'', role = ADMIN\<rparr>"

definition eve :: User where
  "eve = \<lparr>user_id = 4, fullName = ''Eve'', phoneNumber = ''01612345678'', role = DELIVERY\<rparr>"

definition shirt :: ClothingItem where
  "shirt = \<lparr>item_id = 10, name_en = ''Shirt'', item_category = MEN\<rparr>"

definition db0 :: Database where
  "db0 = \<lparr>users = [alice, dan, adam, eve],
           clothingItems = [shirt],
           pricings =
             [\<lparr>pr_clothingItem = 10, pr_serviceType = WASHING, pr_category = MEN,
               price = Finite 40, isActive = True\<rparr>,
              \<lparr>pr_clothingItem = 10, pr_serviceType = IRONING, pr_category = MEN,
               price = Finite 25, isActive = True\<rparr>],
           orders = []\<rparr>"

definition house10 :: OrderAddress where
  "house10 = \<lparr>fullAddress = ''House 10, Road 5'', landmark = None, contactPhone = None\<rparr>"

definition shirt_line :: OrderItemDto where
  "shirt_line = \<lparr>clothingItemId = 10, category = MEN, services = [WASHING, IRONING],
                  quantity = Finite 2\<rparr>"

definition shirt_dto :: CreateOrderDto where
  "shirt_dto = \<lparr>dto_items = [shirt_line], dto_pickupAddress = house10,
                 dto_deliveryAddress = None, dto_notes = None,
                 dto_scheduledPickupTime = None\<rparr>"

text \<open>The order that Alice's request for two shirts creates at time 1000.\<close>

definition shirt_order :: Order where
  "shirt_order =
     \<lparr>order_id = 1, customer = 1, deliveryPerson = None,
      items = [\<lparr>clothingItem = 10, clothingItemName = ''Shirt'', oi_category = MEN,
                oi_services = [WASHING, IRONING], oi_quantity = Finite 2,
                unitPrice = Finite 65, subtotal = Finite 130\<rparr>],
      pricing = \<lparr>itemsTotal = Finite 130, deliveryCharge = Finite 60,
                 grandTotal = Finite 190\<rparr>,
      pickupAddress = house10, deliveryAddress = house10,
      status = REQUESTED,
      statusHistory = [\<lparr>entry_status = REQUESTED, timestamp = 1000,
                        entry_note = ''Order placed'', updatedBy = 1\<rparr>],
      order_notes = None, scheduledPickupTime = None, estimatedDeliveryTime = None,
      createdAt = 1001, updatedAt = 1001\<rparr>"

definition db1 :: Database where
  "db1 = db0\<lparr>orders := [shirt_order]\<rparr>"

text \<open>The same order after Dan was assigned to it at time 3000.\<close>

definition assigned_order :: Order where
  "assigned_order = shirt_order\<lparr>deliveryPerson := Some 2, updatedAt := 3000\<rparr>"

definition db2 :: Database where
  "db2 = db0\<lparr>orders := [assigned_order]\<rparr>"

text \<open>
  Two more request lines: one for a clothing item that is not in the catalog, one for the
  shirt in the women's category, which has no price. \<open>empty_order\<close> is what a request
  with no line at all creates.
\<close>

definition ghost_line :: OrderItemDto where
  "ghost_line = \<lparr>clothingItemId = 99, category = MEN, services = [WASHING],
                  quantity = Finite 1\<rparr>"

definition blouse_line :: OrderItemDto where
  "blouse_line = \<lparr>clothingItemId = 10, category = WOMEN, services = [WASHING],
                   quantity = Finite 1\<rparr>"

definition empty_order :: Order where
  "empty_order =
     shirt_order\<lparr>items := [],
                 pricing := \<lparr>itemsTotal = Finite 0, deliveryCharge = Finite 60,
                             grandTotal = Finite 60\<rparr>\<rparr>"

text \<open>
  A collection with three \<open>REQUESTED\<close>, two \<open>DELIVERED\<close> and one \<open>CANCELLED\<close>
  order, and one with an assigned order, a cancelled unassigned order and two open
  requests of different age.
\<close>

definition stats_db :: Database where
  "stats_db = db0\<lparr>orders :=
     map (\<lambda>(i, s). shirt_order\<lparr>order_id := i, status := s\<rparr>)
       [(1, REQUESTED), (2, DELIVERED), (3, REQUESTED), (4, CANCELLED), (5, DELIVERED),
        (6, REQUESTED)]\<rparr>"

definition queue_db :: Database where
  "queue_db = db0\<lparr>orders :=
     [shirt_order,
      assigned_order\<lparr>order_id := 2\<rparr>,
      shirt_order\<lparr>order_id := 3, status := CANCELLED\<rparr>,
      shirt_order\<lparr>order_id := 4, createdAt := 500\<rparr>]\<rparr>"

text \<open>The assigned order after Dan picked it up at time 2000.\<close>

definition picked_order :: Order where
  "picked_order =
     assigned_order\<lparr>status := PICKED_UP,
                    statusHistory := statusHistory assigned_order @
                      [\<lparr>entry_status = PICKED_UP, timestamp = 2000, entry_note = [],
                        updatedBy = 2\<rparr>],
                    updatedAt := 2001\<rparr>"

section \<open>Theorems\<close>

lemma isValidStatusTransition_iff_table:
  "isValidStatusTransition c t = (t \<in> spec_transition_table c)"
  by (cases c) (auto simp: isValidStatusTransition_def)

text \<open>
  Claim C1. \<open>isValidStatusTransition current target\<close> is true exactly when \<open>target\<close>
  is in the table entry of \<open>current\<close>, for all 36 pairs: the pairs accepted among the
  36 are the six of the table. \<open>DELIVERED\<close> and \<open>CANCELLED\<close> have no outgoing
  transition, and \<open>IN_LAUNDRY\<close> to \<open>CANCELLED\<close> is rejected.
\<close>

theorem isValidStatusTransition_table:
  "(\<forall>current target.
      isValidStatusTransition current target = (target \<in> spec_transition_table current))
   \<and> length (List.product all_statuses all_statuses) = 36
   \<and> filter (\<lambda>(c, t). isValidStatusTransition c t) (List.product all_statuses all_statuses)
       = [(REQUESTED, PICKED_UP), (REQUESTED, CANCELLED),
          (PICKED_UP, IN_LAUNDRY), (PICKED_UP, CANCELLED),
          (IN_LAUNDRY, OUT_FOR_DELIVERY), (OUT_FOR_DELIVERY, DELIVERED)]
   \<and> (\<forall>target. isValidStatusTransition DELIVERED target = False)
   \<and> (\<forall>target. isValidStatusTransition CANCELLED target = False)
   \<and> isValidStatusTransition IN_LAUNDRY CANCELLED = False"
  by (simp add: isValidStatusTransition_iff_table all_statuses_def)

subsection \<open>Helper facts\<close>

lemmas example_defs =
  db0_def db1_def db2_def alice_def dan_def adam_def eve_def shirt_def house10_def
  shirt_line_def shirt_dto_def shirt_order_def assigned_order_def

lemma findUserById_id: "findUserById us uid = Some u \<Longrightarrow> user_id u = uid"
  by (auto simp: findUserById_def find_Some_iff)

lemma findById_id: "findById os oid = Some ord \<Longrightarrow> order_id ord = oid"
  by (auto simp: findById_def find_Some_iff)

lemma assign_order_missing:
  "findById (orders db) orderId = None \<Longrightarrow>
     assignDeliveryPerson savedAt db orderId dto = (Inl (NotFoundException ''Order not found''), db)"
  by (simp add: assignDeliveryPerson_def)

lemma assign_user_missing:
  "findById (orders db) orderId = Some ord \<Longrightarrow>
   findUserById (users db) (deliveryPersonId dto) = None \<Longrightarrow>
     assignDeliveryPerson savedAt db orderId dto =
       (Inl (NotFoundException ''Delivery person not found''), db)"
  by (simp add: assignDeliveryPerson_def)

lemma assign_wrong_role:
  "findById (orders db) orderId = Some ord \<Longrightarrow>
   findUserById (users db) (deliveryPersonId dto) = Some person \<Longrightarrow>
   role person \<noteq> DELIVERY \<Longrightarrow>
     assignDeliveryPerson savedAt db orderId dto =
       (Inl (BadRequestException ''User is not a delivery person''), db)"
  by (simp add: assignDeliveryPerson_def)

lemma assign_success:
  assumes "findById (orders db) orderId = Some ord"
      and "findUserById (users db) (deliveryPersonId dto) = Some person"
      and "role person = DELIVERY"
  shows "assignDeliveryPerson savedAt db orderId dto =
           (Inr (ord\<lparr>deliveryPerson := Some (deliveryPersonId dto),
                      updatedAt := (if deliveryPerson ord = Some (deliveryPersonId dto)
                                    then updatedAt ord else savedAt)\<rparr>),
            db\<lparr>orders := map (\<lambda>x. if order_id x = orderId
                                    then ord\<lparr>deliveryPerson := Some (deliveryPersonId dto),
                      updatedAt := (if deliveryPerson ord = Some (deliveryPersonId dto)
                                    then updatedAt ord else savedAt)\<rparr> else x) (orders db)\<rparr>)"
proof -
  have "order_id ord = orderId" using assms(1) by (rule findById_id)
  then show ?thesis using assms
    by (simp add: assignDeliveryPerson_def Let_def save_existing_def)
qed

lemma roundHalfEven_of_int: "roundHalfEven (of_int m) = m"
  by (simp add: roundHalfEven_def)

lemma bitlen_le_53:
  assumes "0 < n" and "n < 2 ^ 53"
  shows "1 \<le> bitlen n \<and> bitlen n \<le> 53"
proof -
  have "bitlen n \<noteq> 0" using assms(1) by (simp add: bitlen_eq_zero_iff)
  then have lo: "1 \<le> bitlen n" using bitlen_nonneg[of n] by linarith
  have "(2::int) ^ nat (bitlen n - 1) \<le> n" using bitlen_bounds[OF assms(1)] by simp
  then have "(2::int) ^ nat (bitlen n - 1) < 2 ^ 53" using assms(2) by linarith
  then have "nat (bitlen n - 1) < 53"
    by (intro power_less_imp_less_exp[where a = "2::int"]) simp_all
  then show ?thesis using lo by linarith
qed

lemma roundMagnitude_int:
  assumes "0 < n" and "n < 2 ^ 53"
  shows "roundMagnitude (of_int n) = of_int n"
proof -
  define b where "b = nat (bitlen n)"
  have b: "1 \<le> b" "b \<le> 53" "bitlen n = int b"
    using bitlen_le_53[OF assms] unfolding b_def by linarith+
  define s :: rat where "s = of_int n * 2 ^ 1074"
  have s_int: "s = of_int (n * 2 ^ 1074)" by (simp add: s_def)
  have fl: "\<lfloor>s\<rfloor> = n * 2 ^ 1074" unfolding s_int by (rule floor_of_int)
  have "(1::rat) \<le> of_int n" using assms(1) by simp
  then have "(1::rat) * 2 ^ 1074 \<le> of_int n * 2 ^ 1074" by (rule mult_right_mono) simp
  moreover have "(2::rat) ^ 53 \<le> 2 ^ 1074" by (rule power_increasing) simp_all
  ultimately have big: "\<not> s < 2 ^ 53" unfolding s_def by linarith
  have bl: "bitlen \<lfloor>s\<rfloor> = int b + 1074"
    unfolding fl using bitlen_pow2[OF assms(1), of 1074] b(3) by simp
  define k where "k = b + 1021"
  have k: "nat (bitlen \<lfloor>s\<rfloor> - 53) = k" unfolding bl k_def by simp
  have split: "(2::rat) ^ 1074 = 2 ^ (53 - b) * 2 ^ k"
    unfolding k_def power_add[symmetric] using b(2) by simp
  have q: "s / 2 ^ k = of_int (n * 2 ^ (53 - b))"
    unfolding s_def split by simp
  have "roundMagnitude (of_int n) = of_int (roundHalfEven (s / 2 ^ k)) * 2 ^ k / 2 ^ 1074"
    using big k by (simp add: roundMagnitude_def Let_def s_def)
  also have "\<dots> = of_int (n * 2 ^ (53 - b)) * 2 ^ k / 2 ^ 1074"
    unfolding q roundHalfEven_of_int ..
  also have "\<dots> = of_int n * (2 ^ (53 - b) * 2 ^ k) / 2 ^ 1074" by simp
  also have "\<dots> = of_int n" unfolding split[symmetric] by simp
  finally show ?thesis .
qed

lemma toNumber_of_int:
  assumes "\<bar>n\<bar> < 2 ^ 53"
  shows "toNumber (of_int n) = Finite (of_int n)"
proof -
  have lt: "(of_int m :: rat) < 2 ^ 1024" if "m < 2 ^ 53" for m :: int
  proof -
    have "(of_int m :: rat) < of_int (2 ^ 53)" using that by (simp only: of_int_less_iff)
    also have "\<dots> = 2 ^ 53" by simp
    also have "\<dots> \<le> 2 ^ 1024" by (rule power_increasing) simp_all
    finally show ?thesis .
  qed
  consider "n = 0" | "0 < n" | "n < 0" by linarith
  then show ?thesis
  proof cases
    case 1
    then show ?thesis by (simp add: toNumber_def)
  next
    case 2
    then have "n < 2 ^ 53" using assms by simp
    from roundMagnitude_int[OF 2 this] lt[OF this] 2 show ?thesis
      by (simp add: toNumber_def Let_def)
  next
    case 3
    then have p: "0 < - n" "- n < 2 ^ 53" using assms by simp_all
    have "\<bar>of_int n :: rat\<bar> = of_int (- n)" using 3 by simp
    with roundMagnitude_int[OF p] lt[OF p(2)] 3 show ?thesis
      by (simp add: toNumber_def Let_def)
  qed
qed

lemma numAdd_of_int:
  "\<bar>a + b\<bar> < 2 ^ 53 \<Longrightarrow>
     numAdd (Finite (of_int a)) (Finite (of_int b)) = Finite (of_int (a + b))"
  using toNumber_of_int[of "a + b"] by simp

lemma numMul_of_int:
  "\<bar>a * b\<bar> < 2 ^ 53 \<Longrightarrow>
     numMul (Finite (of_int a)) (Finite (of_int b)) = Finite (of_int (a * b))"
  using toNumber_of_int[of "a * b"] by simp

lemma toNumber_numeral:
  "numeral w < (2::int) ^ 53 \<Longrightarrow> toNumber (numeral w) = Finite (numeral w)"
  using toNumber_of_int[of "numeral w"] by simp


lemma bitlen_eqI:
  assumes "(2::int) ^ (b - 1) \<le> m" and "m < 2 ^ b" and "1 \<le> b"
  shows "bitlen m = int b"
proof -
  have "bitlen m \<le> int b" using assms(2) by (simp add: bitlen_le_iff_power)
  moreover have "int b \<le> bitlen m" using assms(1,3) by (simp add: bitlen_ge_iff_power)
  ultimately show ?thesis by simp
qed

lemma roundMagnitude_dyadic:
  assumes "(2::int) ^ (b - 1) \<le> m" and "m < 2 ^ b" and "54 \<le> b" and "e \<le> 1074"
  shows "roundMagnitude (of_int m / 2 ^ e) =
           of_int (roundHalfEven (of_int m / 2 ^ (b - 53))) * 2 ^ (b - 53) / 2 ^ e"
proof -
  have bl: "bitlen m = int b" using assms(1,2,3) by (intro bitlen_eqI) simp_all
  have mpos: "0 < m"
  proof -
    have "(0::int) < 2 ^ (b - 1)" by simp
    then show ?thesis using assms(1) by linarith
  qed
  define c where "c = 1074 - e"
  have e: "(2::rat) ^ 1074 = 2 ^ e * 2 ^ c"
    unfolding c_def power_add[symmetric] using assms(4) by simp
  define s :: rat where "s = of_int m / 2 ^ e * 2 ^ 1074"
  have s_int: "s = of_int (m * 2 ^ c)" unfolding s_def e by simp
  have fl: "\<lfloor>s\<rfloor> = m * 2 ^ c" unfolding s_int by (rule floor_of_int)
  have bls: "bitlen \<lfloor>s\<rfloor> = int b + int c"
    unfolding fl using bitlen_pow2[OF mpos, of c] bl by simp
  have "(2::int) ^ 53 \<le> 2 ^ (b - 1)" using assms(3) by (intro power_increasing) simp_all
  then have "(2::int) ^ 53 \<le> m" using assms(1) by linarith
  moreover have "m * 1 \<le> m * 2 ^ c" using mpos by (intro mult_left_mono) simp_all
  ultimately have "(2::int) ^ 53 \<le> m * 2 ^ c" by linarith
  then have "(of_int ((2::int) ^ 53) :: rat) \<le> of_int (m * 2 ^ c)" by (simp only: of_int_le_iff)
  then have big: "\<not> s < 2 ^ 53" unfolding s_int by simp
  define j where "j = b - 53"
  define k where "k = j + c"
  have k: "nat (bitlen \<lfloor>s\<rfloor> - 53) = k" unfolding bls k_def j_def using assms(3) by simp
  have q: "s / 2 ^ k = of_int m / 2 ^ j"
    unfolding s_int k_def power_add by simp
  have "roundMagnitude (of_int m / 2 ^ e) = of_int (roundHalfEven (s / 2 ^ k)) * 2 ^ k / 2 ^ 1074"
    using big k by (simp add: roundMagnitude_def Let_def s_def)
  also have "\<dots> = of_int (roundHalfEven (of_int m / 2 ^ j)) * 2 ^ k / 2 ^ 1074"
    by (simp only: q)
  also have "\<dots> = of_int (roundHalfEven (of_int m / 2 ^ j)) * (2 ^ j * 2 ^ c) / (2 ^ e * 2 ^ c)"
    by (simp only: e k_def power_add)
  also have "\<dots> = of_int (roundHalfEven (of_int m / 2 ^ j)) * 2 ^ j / 2 ^ e" by simp
  finally show ?thesis unfolding j_def .
qed

lemma toNumber_pos:
  assumes "0 < x" and "roundMagnitude x < 2 ^ 1024"
  shows "toNumber x = Finite (roundMagnitude x)"
  using assms by (simp add: toNumber_def Let_def)

text \<open>
  The rounding at work: the doubles written 0.1 and 0.2 add up to the double written
  0.30000000000000004, which is not their exact sum.
\<close>

lemma numAdd_rounds:
  "numAdd (Finite (3602879701896397 / 2 ^ 55)) (Finite (3602879701896397 / 2 ^ 54))
     = Finite (1351079888211149 / 2 ^ 52)
   \<and> (1351079888211149 / 2 ^ 52 :: rat)
       \<noteq> 3602879701896397 / 2 ^ 55 + 3602879701896397 / 2 ^ 54"
proof -
  have inexact: "(1351079888211149 / 2 ^ 52 :: rat)
       \<noteq> 3602879701896397 / 2 ^ 55 + 3602879701896397 / 2 ^ 54" by simp
  have sum: "(3602879701896397 / 2 ^ 55 + 3602879701896397 / 2 ^ 54 :: rat)
               = of_int 10808639105689191 / 2 ^ 55" by simp
  have "roundMagnitude (of_int 10808639105689191 / 2 ^ 55) =
          of_int (roundHalfEven (of_int 10808639105689191 / 2 ^ (54 - 53))) * 2 ^ (54 - 53) / 2 ^ 55"
    by (rule roundMagnitude_dyadic) simp_all
  also have "roundHalfEven (of_int 10808639105689191 / 2 ^ (54 - 53)) = 5404319552844596"
  proof -
    have "\<lfloor>10808639105689191 / 2 :: rat\<rfloor> = 5404319552844595"
      by (rule floor_unique) simp_all
    then show ?thesis by (simp add: roundHalfEven_def Let_def)
  qed
  finally have r: "roundMagnitude (of_int 10808639105689191 / 2 ^ 55) = 1351079888211149 / 2 ^ 52"
    by simp
  have "(1351079888211149 / 2 ^ 52 :: rat) < 1" by simp
  also have "(1::rat) \<le> 2 ^ 1024" by (rule one_le_power) simp
  finally have small: "roundMagnitude (of_int 10808639105689191 / 2 ^ 55) < 2 ^ 1024"
    unfolding r .
  have "toNumber (of_int 10808639105689191 / 2 ^ 55)
          = Finite (roundMagnitude (of_int 10808639105689191 / 2 ^ 55))"
    using small by (intro toNumber_pos) simp_all
  then have "numAdd (Finite (3602879701896397 / 2 ^ 55)) (Finite (3602879701896397 / 2 ^ 54))
     = Finite (1351079888211149 / 2 ^ 52)" unfolding numAdd.simps sum r .
  then show ?thesis using inexact by blast
qed

lemma getItemPrice_Inl_iff:
  "(\<exists>e. getItemPrice db cid s cat = Inl e) = noActivePrice db cid s cat"
proof -
  let ?P = "\<lambda>p. pr_clothingItem p = cid \<and> pr_serviceType p = s
                      \<and> pr_category p = cat \<and> isActive p"
  have "(\<exists>e. getItemPrice db cid s cat = Inl e) = (find ?P (pricings db) = None)"
    by (simp add: getItemPrice_def split: option.splits)
  also have "\<dots> = noActivePrice db cid s cat"
    by (auto simp: find_None_iff noActivePrice_def list_all_iff)
  finally show ?thesis .
qed

lemma getItemPrice_Inr_iff:
  "(\<exists>p. getItemPrice db cid s cat = Inr p) = (\<not> noActivePrice db cid s cat)"
  using getItemPrice_Inl_iff[of db cid s cat] by (cases "getItemPrice db cid s cat") auto

lemma priceServices_Inr:
  "priceServices db ci item ss u = Inr v \<Longrightarrow>
     \<exists>ps. map (\<lambda>s. getItemPrice db (clothingItemId item) s (category item)) ss = map Inr ps
          \<and> v = foldl numAdd u ps"
proof (induction ss arbitrary: u)
  case Nil
  then show ?case by simp
next
  case (Cons s ss)
  from Cons.prems obtain p where p: "getItemPrice db (clothingItemId item) s (category item) = Inr p"
    and rest: "priceServices db ci item ss (numAdd u p) = Inr v"
    by (auto split: sum.splits)
  from Cons.IH[OF rest] obtain ps where
    "map (\<lambda>s. getItemPrice db (clothingItemId item) s (category item)) ss = map Inr ps"
    "v = foldl numAdd (numAdd u p) ps" by blast
  then have "map (\<lambda>s. getItemPrice db (clothingItemId item) s (category item)) (s # ss)
               = map Inr (p # ps)
             \<and> v = foldl numAdd u (p # ps)" using p by simp
  then show ?case by blast
qed

lemma priceServices_priced_prefix:
  "list_all (\<lambda>s. \<not> noActivePrice db (clothingItemId item) s (category item)) spre \<Longrightarrow>
     \<exists>u'. priceServices db ci item (spre @ rest) u = priceServices db ci item rest u'"
proof (induction spre arbitrary: u)
  case Nil
  then show ?case by auto
next
  case (Cons s spre)
  then have "\<not> noActivePrice db (clothingItemId item) s (category item)" by simp
  then obtain p where p: "getItemPrice db (clothingItemId item) s (category item) = Inr p"
    using getItemPrice_Inr_iff by blast
  from Cons have "list_all (\<lambda>s. \<not> noActivePrice db (clothingItemId item) s (category item)) spre"
    by simp
  from Cons.IH[OF this, of "numAdd u p"] show ?case using p by simp
qed

lemma priceServices_first_unpriced:
  assumes "list_all (\<lambda>s. \<not> noActivePrice db (clothingItemId item) s (category item)) spre"
      and "noActivePrice db (clothingItemId item) s (category item)"
  shows "priceServices db ci item (spre @ s # spost) u = Inl (pricingError (name_en ci) s)"
proof -
  obtain e where "getItemPrice db (clothingItemId item) s (category item) = Inl e"
    using assms(2) getItemPrice_Inl_iff by blast
  then have "priceServices db ci item (s # spost) u' = Inl (pricingError (name_en ci) s)" for u'
    by (simp add: pricingError_def)
  then show ?thesis using priceServices_priced_prefix[OF assms(1), of ci "s # spost" u] by auto
qed

lemma priceServices_all_priced:
  assumes "list_all (\<lambda>s. \<not> noActivePrice db (clothingItemId item) s (category item)) ss"
  shows "\<exists>v. priceServices db ci item ss u = Inr v"
  using priceServices_priced_prefix[OF assms, of ci "[]" u] by auto

lemma getClothingItemById_Inl:
  "getClothingItemById db cid = Inl e \<Longrightarrow> e = NotFoundException ''Clothing item not found''"
  by (auto simp: getClothingItemById_def split: option.splits)

lemma priceItems_Inr:
  "priceItems db ls acc t = Inr (its, tot) \<Longrightarrow>
     \<exists>new. its = acc @ new \<and> list_all2 (pricedLine db) ls new
           \<and> tot = foldl numAdd t (map subtotal new)"
proof (induction ls arbitrary: acc t)
  case Nil
  then show ?case by simp
next
  case (Cons line ls)
  from Cons.prems obtain ci where ci: "getClothingItemById db (clothingItemId line) = Inr ci"
    by (auto split: sum.splits)
  from Cons.prems ci obtain u where u: "priceServices db ci line (services line) (Finite 0) = Inr u"
    by (auto split: sum.splits)
  define it where "it = \<lparr>clothingItem = clothingItemId line, clothingItemName = name_en ci,
                  oi_category = category line, oi_services = services line,
                  oi_quantity = quantity line, unitPrice = u,
                  subtotal = numMul u (quantity line)\<rparr>"
  have rest: "priceItems db ls (acc @ [it]) (numAdd t (numMul u (quantity line))) = Inr (its, tot)"
    using Cons.prems ci u by (simp add: it_def Let_def)
  from priceServices_Inr[OF u] obtain ps where
    ps: "map (\<lambda>s. getItemPrice db (clothingItemId line) s (category line)) (services line) = map Inr ps"
      and "u = foldl numAdd (Finite 0) ps" by auto
  then have pl: "pricedLine db line it"
    using ci unfolding pricedLine_def it_def by blast
  from Cons.IH[OF rest] obtain new where
    new: "its = (acc @ [it]) @ new" "list_all2 (pricedLine db) ls new"
      "tot = foldl numAdd (numAdd t (numMul u (quantity line))) (map subtotal new)" by blast
  have "its = acc @ (it # new)" using new(1) by simp
  moreover have "list_all2 (pricedLine db) (line # ls) (it # new)" using pl new(2) by simp
  moreover have "tot = foldl numAdd t (map subtotal (it # new))"
    using new(3) by (simp add: it_def)
  ultimately show ?case by blast
qed

lemma priceItems_ok_prefix:
  "list_all (lineOk db) pre \<Longrightarrow>
     \<exists>acc' t'. priceItems db (pre @ rest) acc t = priceItems db rest acc' t'"
proof (induction pre arbitrary: acc t)
  case Nil
  then show ?case by auto
next
  case (Cons line pre)
  then have ok: "lineOk db line" and okpre: "list_all (lineOk db) pre" by simp_all
  from ok obtain ci where ci: "getClothingItemById db (clothingItemId line) = Inr ci"
    and pr: "list_all (\<lambda>s. \<not> noActivePrice db (clothingItemId line) s (category line)) (services line)"
    by (auto simp: lineOk_def split: sum.splits)
  from priceServices_all_priced[OF pr, of ci "Finite 0"] obtain u where
    u: "priceServices db ci line (services line) (Finite 0) = Inr u" by blast
  obtain acc1 t1 where
    "priceItems db ((line # pre) @ rest) acc t = priceItems db (pre @ rest) acc1 t1"
    using ci u by (simp add: Let_def)
  then show ?case using Cons.IH[OF okpre, of acc1 t1] by auto
qed

lemma priceItems_unknown_item:
  "getClothingItemById db (clothingItemId bad) = Inl e \<Longrightarrow>
     priceItems db (bad # post) acc t = Inl (NotFoundException ''Clothing item not found'')"
  using getClothingItemById_Inl[of db "clothingItemId bad" e] by simp

lemma priceItems_unpriced_service:
  assumes "getClothingItemById db (clothingItemId bad) = Inr ci"
      and "services bad = spre @ s # spost"
      and "list_all (\<lambda>x. \<not> noActivePrice db (clothingItemId bad) x (category bad)) spre"
      and "noActivePrice db (clothingItemId bad) s (category bad)"
  shows "priceItems db (bad # post) acc t = Inl (pricingError (name_en ci) s)"
  using assms(1) priceServices_first_unpriced[OF assms(3,4), of ci spost "Finite 0"]
  by (simp add: assms(2))

lemma first_unpriced_service:
  assumes "\<not> list_all (\<lambda>x. \<not> noActivePrice db cid x cat) ss"
  shows "\<exists>spre s spost. ss = spre @ s # spost
           \<and> list_all (\<lambda>x. \<not> noActivePrice db cid x cat) spre
           \<and> noActivePrice db cid s cat"
proof -
  from assms have "\<exists>x \<in> set ss. noActivePrice db cid x cat" by (auto simp: list_all_iff)
  from split_list_first_prop[OF this] show ?thesis by (auto simp: list_all_iff)
qed

lemma first_bad_line:
  assumes "\<exists>l \<in> set ls. \<not> lineOk db l"
  shows "\<exists>pre bad post. ls = pre @ bad # post \<and> list_all (lineOk db) pre \<and> \<not> lineOk db bad"
  using split_list_first_prop[OF assms] by (auto simp: list_all_iff)

lemma unpriced_line_not_ok:
  "s \<in> set (services l) \<Longrightarrow> noActivePrice db (clothingItemId l) s (category l) \<Longrightarrow>
     \<not> lineOk db l"
  by (auto simp: lineOk_def list_all_iff split: sum.splits)

lemma createOrder_Inr:
  assumes "createOrder cfg now savedAt db userId dto = (Inr ord, db')"
  shows "\<exists>its tot. priceItems db (dto_items dto) [] (Finite 0) = Inr (its, tot)
           \<and> items ord = its
           \<and> pricing ord = \<lparr>itemsTotal = tot,
                             deliveryCharge = (case cfg of None \<Rightarrow> Finite 60 | Some c \<Rightarrow> c),
                             grandTotal =
                               numAdd tot (case cfg of None \<Rightarrow> Finite 60 | Some c \<Rightarrow> c)\<rparr>
           \<and> customer ord = userId \<and> status ord = REQUESTED
           \<and> order_id ord = fresh_id (orders db)
           \<and> statusHistory ord = [\<lparr>entry_status = REQUESTED, timestamp = now,
                                    entry_note = ''Order placed'', updatedBy = userId\<rparr>]
           \<and> db' = db\<lparr>orders := orders db @ [ord]\<rparr>"
  using assms
  by (auto simp: createOrder_def Let_def split: sum.splits if_splits prod.splits)

lemma createOrder_Inl:
  assumes "priceItems db (dto_items dto) [] (Finite 0) = Inl e"
  shows "createOrder cfg now savedAt db userId dto = (Inl e, db)"
  using assms by (simp add: createOrder_def)

lemma createOrder_error_keeps_db:
  "fst (createOrder cfg now savedAt db userId dto) = Inl e \<Longrightarrow>
     snd (createOrder cfg now savedAt db userId dto) = db"
  by (auto simp: createOrder_def Let_def split: sum.splits if_splits prod.splits)

lemma createOrder_shirt:
  "createOrder None 1000 1001 db0 1 shirt_dto = (Inr shirt_order, db1)"
  by (simp add: createOrder_def getClothingItemById_def getItemPrice_def validateOrder_def
      fresh_id_def Let_def toNumber_numeral example_defs)

lemma pricedLine_prices:
  "pricedLine db line it \<Longrightarrow>
     \<exists>ci ps.
        getClothingItemById db (clothingItemId line) = Inr ci
        \<and> map (\<lambda>s. getItemPrice db (clothingItemId line) s (category line)) (services line)
            = map Inr ps
        \<and> clothingItem it = clothingItemId line
        \<and> clothingItemName it = name_en ci
        \<and> oi_category it = category line
        \<and> oi_services it = services line
        \<and> oi_quantity it = quantity line
        \<and> unitPrice it = foldl numAdd (Finite 0) ps
        \<and> subtotal it = numMul (unitPrice it) (oi_quantity it)"
  unfolding pricedLine_def by auto

lemma fst_set_addToGroup: "fst ` set (addToGroup s gs) = insert s (fst ` set gs)"
  by (induction s gs rule: addToGroup.induct) auto

lemma distinct_addToGroup:
  "distinct (map fst gs) \<Longrightarrow> distinct (map fst (addToGroup s gs))"
  by (induction s gs rule: addToGroup.induct) (auto simp: fst_set_addToGroup)

lemma countOr0_addToGroup:
  "countOr0 (addToGroup s gs) k = countOr0 gs k + (if k = s then 1 else 0)"
  by (induction s gs rule: addToGroup.induct) (auto simp: countOr0_def)

lemma sum_addToGroup:
  "sum_list (map snd (addToGroup s gs)) = Suc (sum_list (map snd gs))"
  by (induction s gs rule: addToGroup.induct) auto

lemma foldl_group_distinct:
  "distinct (map fst gs) \<Longrightarrow>
     distinct (map fst (foldl (\<lambda>gs ord. addToGroup (status ord) gs) gs os))"
  by (induction os arbitrary: gs) (auto simp: distinct_addToGroup)

lemma foldl_group_count:
  "countOr0 (foldl (\<lambda>gs ord. addToGroup (status ord) gs) gs os) k
     = countOr0 gs k + length (filter (\<lambda>ord. status ord = k) os)"
  by (induction os arbitrary: gs) (auto simp: countOr0_addToGroup)

lemma foldl_group_sum:
  "sum_list (map snd (foldl (\<lambda>gs ord. addToGroup (status ord) gs) gs os))
     = sum_list (map snd gs) + length os"
  by (induction os arbitrary: gs) (auto simp: sum_addToGroup)

lemma assign_key_new: "k \<notin> fst ` set acc \<Longrightarrow> assign_key k v acc = acc @ [(k, v)]"
  by (induction k v acc rule: assign_key.induct) auto

lemma foldl_assign_distinct:
  "distinct (map fst (acc @ stats)) \<Longrightarrow>
     foldl (\<lambda>acc (k, c). assign_key k c acc) acc stats = acc @ stats"
proof (induction stats arbitrary: acc)
  case Nil
  then show ?case by simp
next
  case (Cons kc stats)
  obtain k c where kc: "kc = (k, c)" by (cases kc)
  have new: "k \<notin> fst ` set acc" using Cons.prems kc by auto
  have d: "distinct (map fst ((acc @ [(k, c)]) @ stats))" using Cons.prems kc by auto
  show ?case using Cons.IH[OF d] kc by (simp add: assign_key_new[OF new])
qed

lemma statusCountsOf_groups:
  "statusCountsOf (groupByStatus os) = groupByStatus os"
proof -
  have "distinct (map fst (groupByStatus os))"
    unfolding groupByStatus_def by (rule foldl_group_distinct) simp
  then show ?thesis
    unfolding statusCountsOf_def using foldl_assign_distinct[of "[]" "groupByStatus os"] by simp
qed

lemma foldl_plus_nat: "foldl (+) (a::nat) xs = a + sum_list xs"
  by (induction xs arbitrary: a) auto

lemma countOr0_groupByStatus:
  "countOr0 (groupByStatus os) k = length (filter (\<lambda>ord. status ord = k) os)"
proof -
  have "countOr0 [] k = 0" by (simp add: countOr0_def)
  then show ?thesis unfolding groupByStatus_def by (simp add: foldl_group_count)
qed

lemma sum_groupByStatus: "sum_list (map snd (groupByStatus os)) = length os"
  unfolding groupByStatus_def by (simp add: foldl_group_sum)

lemma length_by_status:
  "length os = sum_list (map (\<lambda>s. length (filter (\<lambda>ord. status ord = s) os)) all_statuses)"
proof (induction os)
  case Nil
  then show ?case by (simp add: all_statuses_def)
next
  case (Cons a os)
  then show ?case by (cases "status a") (simp_all add: all_statuses_def)
qed

lemma doc_getUnassignedOrders:
  "map doc (getUnassignedOrders db) =
     sort_key createdAt
       (filter (\<lambda>ord. deliveryPerson ord = None \<and> status ord = REQUESTED) (orders db))"
  by (simp add: getUnassignedOrders_def o_def)

lemma order_id_le_foldr_max: "x \<in> set xs \<Longrightarrow> x \<le> foldr max xs (0::nat)"
  by (induction xs) auto

lemma fresh_id_fresh: "fresh_id os \<notin> order_id ` set os"
proof
  assume "fresh_id os \<in> order_id ` set os"
  then have "fresh_id os \<in> set (map order_id os)" by simp
  then have "fresh_id os \<le> foldr max (map order_id os) 0" by (rule order_id_le_foldr_max)
  then show False by (simp add: fresh_id_def)
qed

lemma order_ids_save_existing: "map order_id (save_existing os ord') = map order_id os"
  by (induction os) (auto simp: save_existing_def)

lemma set_save_existing: "set (save_existing os ord') \<subseteq> insert ord' (set os)"
  by (auto simp: save_existing_def)

lemma findById_distinct:
  "distinct (map order_id os) \<Longrightarrow> ord \<in> set os \<Longrightarrow> findById os (order_id ord) = Some ord"
  by (induction os) (auto simp: findById_def image_iff)

lemma findById_in_set: "findById os oid = Some ord \<Longrightarrow> ord \<in> set os"
  by (auto simp: findById_def find_Some_iff)

lemma findById_save_existing:
  "findById os oid = Some ord \<Longrightarrow> order_id ord' = oid \<Longrightarrow>
     findById (save_existing os ord') oid = Some ord'"
  by (induction os) (auto simp: findById_def save_existing_def split: if_splits)

lemma updateOrderStatus_Inr:
  assumes "updateOrderStatus now savedAt db orderId dto user = (Inr ord', db')"
  shows "\<exists>ord. findById (orders db) orderId = Some ord
           \<and> ord' = ord\<lparr>status := dto_status dto,
                          statusHistory := statusHistory ord @ [statusEntry now dto user],
                          updatedAt := savedAt\<rparr>
           \<and> db' = db\<lparr>orders := save_existing (orders db) ord'\<rparr>"
proof (cases "findById (orders db) orderId")
  case None
  then show ?thesis using assms by (simp add: updateOrderStatus_def)
next
  case (Some ord)
  then show ?thesis using assms
    by (auto simp: updateOrderStatus_def Let_def statusEntry_def split: if_splits)
qed

lemma updateOrderStatus_Inl:
  "updateOrderStatus now savedAt db orderId dto user = (Inl e, db') \<Longrightarrow> db' = db"
  by (cases "findById (orders db) orderId")
     (simp_all add: updateOrderStatus_def Let_def split: if_splits)

lemma assignDeliveryPerson_Inr:
  assumes "assignDeliveryPerson savedAt db orderId dto = (Inr ord', db')"
  shows "\<exists>ord. findById (orders db) orderId = Some ord
           \<and> status ord' = status ord \<and> statusHistory ord' = statusHistory ord
           \<and> customer ord' = customer ord \<and> order_id ord' = order_id ord
           \<and> db' = db\<lparr>orders := save_existing (orders db) ord'\<rparr>"
proof (cases "findById (orders db) orderId")
  case None
  then show ?thesis using assms by (simp add: assignDeliveryPerson_def)
next
  case (Some ord)
  show ?thesis
  proof (cases "findUserById (users db) (deliveryPersonId dto)")
    case None
    then show ?thesis using assms Some by (simp add: assignDeliveryPerson_def)
  next
    case (Some person)
    then show ?thesis using assms \<open>findById (orders db) orderId = Some ord\<close>
      by (auto simp: assignDeliveryPerson_def Let_def split: if_splits)
  qed
qed

lemma assignDeliveryPerson_Inl:
  "assignDeliveryPerson savedAt db orderId dto = (Inl e, db') \<Longrightarrow> db' = db"
  by (cases "findById (orders db) orderId"; cases "findUserById (users db) (deliveryPersonId dto)")
     (simp_all add: assignDeliveryPerson_def Let_def split: if_splits)

lemma createOrder_Inl_db:
  "createOrder cfg now savedAt db userId dto = (Inl e, db') \<Longrightarrow> db' = db"
  using createOrder_error_keeps_db[of cfg now savedAt db userId dto e] by simp

lemma historyOk_created:
  assumes "createOrder cfg now savedAt db userId dto = (Inr ord, db')"
  shows "historyOk ord"
  using createOrder_Inr[OF assms] by (auto simp: historyOk_def)

lemma historyOk_updated:
  assumes "historyOk ord"
  shows "historyOk (ord\<lparr>status := dto_status dto,
                        statusHistory := statusHistory ord @ [statusEntry now dto user],
                        updatedAt := savedAt\<rparr>)"
proof -
  have "statusHistory ord \<noteq> []" using assms by (auto simp: historyOk_def)
  then show ?thesis using assms by (simp add: historyOk_def statusEntry_def)
qed

lemma historyOk_cong:
  "historyOk ord \<Longrightarrow> status ord' = status ord \<Longrightarrow> statusHistory ord' = statusHistory ord \<Longrightarrow>
   customer ord' = customer ord \<Longrightarrow> historyOk ord'"
  by (simp add: historyOk_def)

lemma storeOk_save_existing:
  assumes "storeOk db" and "historyOk ord'"
  shows "storeOk (db\<lparr>orders := save_existing (orders db) ord'\<rparr>)"
  using assms set_save_existing[of "orders db" ord']
  by (auto simp: storeOk_def order_ids_save_existing)

lemma storeOk_step:
  assumes "storeOk db" and "step db db'"
  shows "storeOk db'"
  using assms(2)
proof cases
  case (create cfg now savedAt userId dto r)
  show ?thesis
  proof (cases r)
    case (Inl e)
    then show ?thesis using create createOrder_Inl_db assms(1) by blast
  next
    case (Inr ord)
    then have c: "createOrder cfg now savedAt db userId dto = (Inr ord, db')" using create by simp
    from createOrder_Inr[OF c] have d: "db' = db\<lparr>orders := orders db @ [ord]\<rparr>"
      and i: "order_id ord = fresh_id (orders db)" by auto
    have "order_id ord \<notin> order_id ` set (orders db)" using i fresh_id_fresh by simp
    then show ?thesis using assms(1) historyOk_created[OF c] d by (auto simp: storeOk_def)
  qed
next
  case (update now savedAt orderId sdto user r)
  show ?thesis
  proof (cases r)
    case (Inl e)
    then show ?thesis using update updateOrderStatus_Inl assms(1) by blast
  next
    case (Inr ord')
    then have u: "updateOrderStatus now savedAt db orderId sdto user = (Inr ord', db')"
      using update by simp
    from updateOrderStatus_Inr[OF u] obtain ord where
      f: "findById (orders db) orderId = Some ord" and
      o: "ord' = ord\<lparr>status := dto_status sdto,
                          statusHistory := statusHistory ord @ [statusEntry now sdto user],
                          updatedAt := savedAt\<rparr>" and
      d: "db' = db\<lparr>orders := save_existing (orders db) ord'\<rparr>" by blast
    have "historyOk ord" using assms(1) findById_in_set[OF f] by (simp add: storeOk_def)
    then have "historyOk ord'" unfolding o by (rule historyOk_updated)
    then show ?thesis unfolding d using assms(1) by (intro storeOk_save_existing)
  qed
next
  case (assign savedAt orderId adto r)
  show ?thesis
  proof (cases r)
    case (Inl e)
    then show ?thesis using assign assignDeliveryPerson_Inl assms(1) by blast
  next
    case (Inr ord')
    then have a: "assignDeliveryPerson savedAt db orderId adto = (Inr ord', db')"
      using assign by simp
    from assignDeliveryPerson_Inr[OF a] obtain ord where
      f: "findById (orders db) orderId = Some ord" and
      s: "status ord' = status ord" "statusHistory ord' = statusHistory ord"
         "customer ord' = customer ord" and
      d: "db' = db\<lparr>orders := save_existing (orders db) ord'\<rparr>" by blast
    have "historyOk ord" using assms(1) findById_in_set[OF f] by (simp add: storeOk_def)
    then have "historyOk ord'" using s by (rule historyOk_cong)
    then show ?thesis unfolding d using assms(1) by (intro storeOk_save_existing)
  qed
qed

lemma storeOk_reachable: "reachable db \<Longrightarrow> storeOk db"
proof (induction rule: reachable.induct)
  case (initial db)
  then show ?case by (simp add: storeOk_def)
next
  case (operation db db')
  then show ?case using storeOk_step by blast
next
  case (elsewhere db db')
  then show ?case by (simp add: storeOk_def)
qed

lemma save_existing_extends:
  assumes "distinct (map order_id os)" and "findById os oid = Some ord0"
      and "order_id ord' = oid" and "statusHistory ord' = statusHistory ord0 @ es0"
      and "ord \<in> set os"
  shows "\<exists>new \<in> set (save_existing os ord'). order_id new = order_id ord
           \<and> (\<exists>es. statusHistory new = statusHistory ord @ es)"
proof (cases "order_id ord = oid")
  case True
  have "findById os (order_id ord) = Some ord" using assms(1,5) by (rule findById_distinct)
  then have "ord = ord0" using True assms(2) by simp
  moreover have "ord' \<in> set (save_existing os ord')"
    using assms(3,5) True by (force simp: save_existing_def)
  ultimately show ?thesis using assms(3,4) True by auto
next
  case False
  then have "ord \<in> set (save_existing os ord')"
    using assms(3,5) by (force simp: save_existing_def)
  then show ?thesis by force
qed

lemma step_extends:
  assumes "storeOk db" and "step db db'" and "ord \<in> set (orders db)"
  shows "\<exists>new \<in> set (orders db'). order_id new = order_id ord
           \<and> (\<exists>es. statusHistory new = statusHistory ord @ es)"
  using assms(2)
proof cases
  case (create cfg now savedAt userId dto r)
  show ?thesis
  proof (cases r)
    case (Inl e)
    then have "db' = db" using create createOrder_Inl_db by blast
    then show ?thesis using assms(3) by force
  next
    case (Inr new)
    then have c: "createOrder cfg now savedAt db userId dto = (Inr new, db')" using create by simp
    from createOrder_Inr[OF c] have "db' = db\<lparr>orders := orders db @ [new]\<rparr>" by auto
    then show ?thesis using assms(3) by force
  qed
next
  case (update now savedAt orderId sdto user r)
  show ?thesis
  proof (cases r)
    case (Inl e)
    then have "db' = db" using update updateOrderStatus_Inl by blast
    then show ?thesis using assms(3) by force
  next
    case (Inr ord')
    then have u: "updateOrderStatus now savedAt db orderId sdto user = (Inr ord', db')"
      using update by simp
    from updateOrderStatus_Inr[OF u] obtain ord0 where
      f: "findById (orders db) orderId = Some ord0" and
      o: "ord' = ord0\<lparr>status := dto_status sdto,
                          statusHistory := statusHistory ord0 @ [statusEntry now sdto user],
                          updatedAt := savedAt\<rparr>" and
      d: "db' = db\<lparr>orders := save_existing (orders db) ord'\<rparr>" by blast
    have i: "order_id ord' = orderId" using findById_id[OF f] o by simp
    have h: "statusHistory ord' = statusHistory ord0 @ [statusEntry now sdto user]"
      using o by simp
    have "distinct (map order_id (orders db))" using assms(1) by (simp add: storeOk_def)
    from save_existing_extends[OF this f i h assms(3)] show ?thesis by (simp add: d)
  qed
next
  case (assign savedAt orderId adto r)
  show ?thesis
  proof (cases r)
    case (Inl e)
    then have "db' = db" using assign assignDeliveryPerson_Inl by blast
    then show ?thesis using assms(3) by force
  next
    case (Inr ord')
    then have a: "assignDeliveryPerson savedAt db orderId adto = (Inr ord', db')"
      using assign by simp
    from assignDeliveryPerson_Inr[OF a] obtain ord0 where
      f: "findById (orders db) orderId = Some ord0" and
      s: "statusHistory ord' = statusHistory ord0" "order_id ord' = order_id ord0" and
      d: "db' = db\<lparr>orders := save_existing (orders db) ord'\<rparr>" by blast
    have i: "order_id ord' = orderId" using findById_id[OF f] s by simp
    have h: "statusHistory ord' = statusHistory ord0 @ []" using s by simp
    have "distinct (map order_id (orders db))" using assms(1) by (simp add: storeOk_def)
    from save_existing_extends[OF this f i h assms(3)] show ?thesis by (simp add: d)
  qed
qed

lemma reachable_db2: "reachable db2"
proof -
  have "reachable db0" by (rule reachable.initial) (simp add: db0_def)
  then have "reachable db1" using createOrder_shirt reachable.operation step.create by blast
  moreover have "assignDeliveryPerson 3000 db1 1 \<lparr>deliveryPersonId = 2\<rparr> = (Inr assigned_order, db2)"
    by (simp add: assignDeliveryPerson_def findById_def findUserById_def save_existing_def
        Let_def example_defs)
  ultimately show ?thesis using reachable.operation step.assign by blast
qed


subsection \<open>Status updates: order of the checks\<close>

text \<open>
  Claim C2 says that the permission check runs before the transition check, so that an
  unauthorised caller always receives Forbidden. The source checks the transition first.
  At the request below the caller Eve holds the delivery role, is not assigned to the
  order and is no administrator; she asks for \<open>REQUESTED\<close> to \<open>DELIVERED\<close>, and
  receives the transition error, not Forbidden.
\<close>

theorem updateOrderStatus_forbidden_counterexample:
  "findById (orders db1) 1 = Some shirt_order
   \<and> deliveryPerson shirt_order \<noteq> Some (user_id eve)
   \<and> role eve \<noteq> ADMIN
   \<and> fst (updateOrderStatus 2000 2001 db1 1 \<lparr>dto_status = DELIVERED, dto_note = None\<rparr> eve) =
       Inl (BadRequestException ''Invalid status transition from requested to delivered'')
   \<and> fst (updateOrderStatus 2000 2001 db1 1 \<lparr>dto_status = DELIVERED, dto_note = None\<rparr> eve) \<noteq>
       Inl (ForbiddenException ''Only delivery person or admin can update order status'')"
  by (simp add: updateOrderStatus_def findById_def isValidStatusTransition_def example_defs)

text \<open>
  Claim C2, as the code has it. For a status update on an existing order the transition
  check runs before the permission check: a request whose transition the table rejects
  fails with the transition error naming both statuses, whoever the caller is; a caller
  who is neither the assigned delivery person nor an administrator receives Forbidden
  when the requested transition is one the table allows. In both cases nothing is
  written.
\<close>

theorem updateOrderStatus_transition_first:
  assumes "findById (orders db) orderId = Some ord"
  shows "(\<not> isValidStatusTransition (status ord) (dto_status dto) \<longrightarrow>
            updateOrderStatus now savedAt db orderId dto user =
              (Inl (BadRequestException
                 (''Invalid status transition from '' @ status_value (status ord)
                    @ '' to '' @ status_value (dto_status dto))), db))
       \<and> (isValidStatusTransition (status ord) (dto_status dto)
            \<and> deliveryPerson ord \<noteq> Some (user_id user) \<and> role user \<noteq> ADMIN \<longrightarrow>
            updateOrderStatus now savedAt db orderId dto user =
              (Inl (ForbiddenException
                 ''Only delivery person or admin can update order status''), db))"
  using assms by (simp add: updateOrderStatus_def)

theorem updateOrderStatus_transition_first_witness:
  "findById (orders db1) 1 = Some shirt_order
   \<and> updateOrderStatus 2000 2001 db1 1 \<lparr>dto_status = IN_LAUNDRY, dto_note = None\<rparr> adam =
       (Inl (BadRequestException ''Invalid status transition from requested to in_laundry''), db1)
   \<and> updateOrderStatus 2000 2001 db1 1 \<lparr>dto_status = PICKED_UP, dto_note = None\<rparr> eve =
       (Inl (ForbiddenException ''Only delivery person or admin can update order status''), db1)"
proof -
  have found: "findById (orders db1) 1 = Some shirt_order"
    by (simp add: findById_def example_defs)
  have "\<not> isValidStatusTransition (status shirt_order) (dto_status \<lparr>dto_status = IN_LAUNDRY, dto_note = None\<rparr>)"
    by (simp add: shirt_order_def isValidStatusTransition_def)
  moreover have "isValidStatusTransition (status shirt_order) (dto_status \<lparr>dto_status = PICKED_UP, dto_note = None\<rparr>)
     \<and> deliveryPerson shirt_order \<noteq> Some (user_id eve) \<and> role eve \<noteq> ADMIN"
    by (simp add: shirt_order_def isValidStatusTransition_def eve_def)
  ultimately show ?thesis
    using found
      updateOrderStatus_transition_first [OF found, of "\<lparr>dto_status = IN_LAUNDRY, dto_note = None\<rparr>" 2000 2001 adam]
      updateOrderStatus_transition_first [OF found, of "\<lparr>dto_status = PICKED_UP, dto_note = None\<rparr>" 2000 2001 eve]
    by (simp add: shirt_order_def)
qed

subsection \<open>Creating an order: missing prices\<close>

text \<open>
  Claim C3 says that a request with a line whose service has no active price always fails
  with the validation error. The loop looks the clothing item of each line up before it
  prices the line, so an unknown clothing item on that line or an earlier one ends the
  creation with NotFound first: below, the second line asks for the unpriced washing of a
  women's shirt, and the first line names a clothing item that does not exist.
\<close>

theorem createOrder_missing_price_counterexample:
  "blouse_line \<in> set (dto_items (shirt_dto\<lparr>dto_items := [ghost_line, blouse_line]\<rparr>))
   \<and> WASHING \<in> set (services blouse_line)
   \<and> noActivePrice db0 (clothingItemId blouse_line) WASHING (category blouse_line)
   \<and> createOrder None 1000 1001 db0 1 (shirt_dto\<lparr>dto_items := [ghost_line, blouse_line]\<rparr>) =
       (Inl (NotFoundException ''Clothing item not found''), db0)"
  by (simp add: createOrder_def getClothingItemById_def noActivePrice_def example_defs
      ghost_line_def blouse_line_def)

text \<open>
  Claim C3, as the code has it. When some line of the request asks for a service type
  with no active price for its key, the creation fails and the database is as before
  (no order is persisted). The lines are checked in the order of the request, and the
  first line that is not in order (its clothing item is unknown, or one of its services
  has no active price) decides the error: NotFound when its clothing item is unknown,
  and otherwise the validation error naming the item and the first service of that line
  that has no active price.
\<close>

theorem createOrder_missing_price:
  assumes "line \<in> set (dto_items dto)"
      and "s \<in> set (services line)"
      and "noActivePrice db (clothingItemId line) s (category line)"
  shows "\<exists>pre bad post.
           dto_items dto = pre @ bad # post
           \<and> list_all (lineOk db) pre
           \<and> \<not> lineOk db bad
           \<and> (case getClothingItemById db (clothingItemId bad) of
                 Inl e \<Rightarrow>
                   createOrder cfg now savedAt db userId dto =
                     (Inl (NotFoundException ''Clothing item not found''), db)
               | Inr ci \<Rightarrow>
                   (\<exists>spre s' spost.
                      services bad = spre @ s' # spost
                      \<and> list_all (\<lambda>x. \<not> noActivePrice db (clothingItemId bad) x (category bad)) spre
                      \<and> noActivePrice db (clothingItemId bad) s' (category bad)
                      \<and> createOrder cfg now savedAt db userId dto =
                          (Inl (BadRequestException
                             (''Pricing not found for '' @ name_en ci @ '' - ''
                                @ service_value s')), db)))"
proof -
  have "\<exists>l \<in> set (dto_items dto). \<not> lineOk db l"
    using assms unpriced_line_not_ok by blast
  from first_bad_line[OF this] obtain pre bad post where
    d: "dto_items dto = pre @ bad # post" and pre: "list_all (lineOk db) pre"
    and bad: "\<not> lineOk db bad" by blast
  from priceItems_ok_prefix[OF pre, of "bad # post" "[]" "Finite 0"] obtain acc' t' where
    run: "priceItems db (dto_items dto) [] (Finite 0) = priceItems db (bad # post) acc' t'"
    unfolding d by blast
  have "case getClothingItemById db (clothingItemId bad) of
                 Inl e \<Rightarrow>
                   createOrder cfg now savedAt db userId dto =
                     (Inl (NotFoundException ''Clothing item not found''), db)
               | Inr ci \<Rightarrow>
                   (\<exists>spre s' spost.
                      services bad = spre @ s' # spost
                      \<and> list_all (\<lambda>x. \<not> noActivePrice db (clothingItemId bad) x (category bad)) spre
                      \<and> noActivePrice db (clothingItemId bad) s' (category bad)
                      \<and> createOrder cfg now savedAt db userId dto =
                          (Inl (BadRequestException
                             (''Pricing not found for '' @ name_en ci @ '' - ''
                                @ service_value s')), db))"
  proof (cases "getClothingItemById db (clothingItemId bad)")
    case (Inl e)
    have "priceItems db (dto_items dto) [] (Finite 0) =
            Inl (NotFoundException ''Clothing item not found'')"
      unfolding run using Inl by (rule priceItems_unknown_item)
    then show ?thesis using Inl by (simp add: createOrder_Inl)
  next
    case (Inr ci)
    then have "\<not> list_all (\<lambda>x. \<not> noActivePrice db (clothingItemId bad) x (category bad))
                  (services bad)"
      using bad by (simp add: lineOk_def)
    from first_unpriced_service[OF this] obtain spre s' spost where
      sp: "services bad = spre @ s' # spost"
        "list_all (\<lambda>x. \<not> noActivePrice db (clothingItemId bad) x (category bad)) spre"
        "noActivePrice db (clothingItemId bad) s' (category bad)" by blast
    have "priceItems db (dto_items dto) [] (Finite 0) = Inl (pricingError (name_en ci) s')"
      unfolding run using Inr sp by (rule priceItems_unpriced_service)
    then have "createOrder cfg now savedAt db userId dto =
                 (Inl (BadRequestException
                    (''Pricing not found for '' @ name_en ci @ '' - '' @ service_value s')), db)"
      by (simp add: createOrder_Inl pricingError_def)
    then show ?thesis using Inr sp by auto
  qed
  then show ?thesis using d pre bad by blast
qed

theorem createOrder_missing_price_witness:
  "blouse_line \<in> set (dto_items (shirt_dto\<lparr>dto_items := [shirt_line, blouse_line]\<rparr>))
   \<and> WASHING \<in> set (services blouse_line)
   \<and> noActivePrice db0 (clothingItemId blouse_line) WASHING (category blouse_line)
   \<and> lineOk db0 shirt_line
   \<and> \<not> lineOk db0 blouse_line
   \<and> getClothingItemById db0 (clothingItemId blouse_line) = Inr shirt
   \<and> createOrder None 1000 1001 db0 1 (shirt_dto\<lparr>dto_items := [shirt_line, blouse_line]\<rparr>) =
       (Inl (BadRequestException ''Pricing not found for Shirt - washing''), db0)"
proof -
  let ?dto = "shirt_dto\<lparr>dto_items := [shirt_line, blouse_line]\<rparr>"
  have a: "blouse_line \<in> set (dto_items ?dto)" by simp
  have b: "WASHING \<in> set (services blouse_line)" by (simp add: blouse_line_def)
  have c: "noActivePrice db0 (clothingItemId blouse_line) WASHING (category blouse_line)"
    by (simp add: noActivePrice_def db0_def blouse_line_def)
  have ok: "lineOk db0 shirt_line"
    by (simp add: lineOk_def getClothingItemById_def noActivePrice_def db0_def shirt_def
        shirt_line_def)
  have nok: "\<not> lineOk db0 blouse_line"
    by (simp add: lineOk_def getClothingItemById_def noActivePrice_def db0_def shirt_def
        blouse_line_def)
  have ci: "getClothingItemById db0 (clothingItemId blouse_line) = Inr shirt"
    by (simp add: getClothingItemById_def db0_def shirt_def blouse_line_def)
  from createOrder_missing_price[OF a b c, of None 1000 1001 1]
  obtain pre bad post where
    d: "dto_items ?dto = pre @ bad # post" and pre: "list_all (lineOk db0) pre"
    and bad: "\<not> lineOk db0 bad"
    and r: "case getClothingItemById db0 (clothingItemId bad) of
                 Inl e \<Rightarrow>
                   createOrder None 1000 1001 db0 1 ?dto =
                     (Inl (NotFoundException ''Clothing item not found''), db0)
               | Inr ci \<Rightarrow>
                   (\<exists>spre s' spost.
                      services bad = spre @ s' # spost
                      \<and> list_all (\<lambda>x. \<not> noActivePrice db0 (clothingItemId bad) x (category bad)) spre
                      \<and> noActivePrice db0 (clothingItemId bad) s' (category bad)
                      \<and> createOrder None 1000 1001 db0 1 ?dto =
                          (Inl (BadRequestException
                             (''Pricing not found for '' @ name_en ci @ '' - ''
                                @ service_value s')), db0))"
    by blast
  have l: "[shirt_line, blouse_line] = pre @ bad # post" using d by simp
  have "bad \<in> set (pre @ bad # post)" by simp
  then have "bad \<in> set [shirt_line, blouse_line]" unfolding l[symmetric] .
  then have "bad = shirt_line \<or> bad = blouse_line" by simp
  then have bl: "bad = blouse_line" using bad ok by blast
  have "\<exists>spre s' spost.
          services blouse_line = spre @ s' # spost
          \<and> list_all (\<lambda>x. \<not> noActivePrice db0 (clothingItemId blouse_line) x
                              (category blouse_line)) spre
          \<and> noActivePrice db0 (clothingItemId blouse_line) s' (category blouse_line)
          \<and> createOrder None 1000 1001 db0 1 ?dto =
              (Inl (BadRequestException
                 (''Pricing not found for '' @ name_en shirt @ '' - ''
                    @ service_value s')), db0)"
    using r unfolding bl ci by (simp only: sum.case)
  then obtain spre s' spost where
    sp: "services blouse_line = spre @ s' # spost"
    and res: "createOrder None 1000 1001 db0 1 ?dto =
                (Inl (BadRequestException
                   (''Pricing not found for '' @ name_en shirt @ '' - '' @ service_value s')), db0)"
    by blast
  have "s' \<in> set (services blouse_line)" unfolding sp by simp
  then have "s' = WASHING" by (simp add: blouse_line_def)
  then show ?thesis using a b c ok nok ci res by (simp add: shirt_def)
qed

subsection \<open>Creating an order: pricing\<close>

text \<open>
  Claim C4. For a successfully created order, line by line: the line copies the request
  (its quantity among the rest), every requested service resolves to a price, the unit
  price is the sum of these prices, and the subtotal is the unit price times the
  quantity. \<open>itemsTotal\<close> is the sum of the subtotals, the delivery charge is the
  configured value (60 when unset) whatever the lines are, and
  \<open>grandTotal = itemsTotal + deliveryCharge\<close>. Sums and products are those of
  JavaScript numbers, taken in the order of the lists and starting at 0; on whole numbers
  they are the exact sum and product as long as the result is below \<open>2\<^sup>5\<^sup>3\<close> in
  magnitude. The scenario of the specification (two shirts, washing 40 and ironing 25,
  charge 60) gives 130 and 190.
\<close>

theorem createOrder_pricing:
  assumes "createOrder cfg now savedAt db userId dto = (Inr ord, db')"
  shows "list_all2
           (\<lambda>line it.
              \<exists>ci ps.
                getClothingItemById db (clothingItemId line) = Inr ci
                \<and> map (\<lambda>s. getItemPrice db (clothingItemId line) s (category line))
                    (services line) = map Inr ps
                \<and> clothingItem it = clothingItemId line
                \<and> clothingItemName it = name_en ci
                \<and> oi_category it = category line
                \<and> oi_services it = services line
                \<and> oi_quantity it = quantity line
                \<and> unitPrice it = foldl numAdd (Finite 0) ps
                \<and> subtotal it = numMul (unitPrice it) (oi_quantity it))
           (dto_items dto) (items ord)
         \<and> itemsTotal (pricing ord) = foldl numAdd (Finite 0) (map subtotal (items ord))
         \<and> deliveryCharge (pricing ord) = (case cfg of None \<Rightarrow> Finite 60 | Some c \<Rightarrow> c)
         \<and> grandTotal (pricing ord) =
             numAdd (itemsTotal (pricing ord)) (deliveryCharge (pricing ord))
         \<and> (\<forall>a b :: int. \<bar>a + b\<bar> < 2 ^ 53 \<longrightarrow>
               numAdd (Finite (of_int a)) (Finite (of_int b)) = Finite (of_int (a + b)))
         \<and> (\<forall>a b :: int. \<bar>a * b\<bar> < 2 ^ 53 \<longrightarrow>
               numMul (Finite (of_int a)) (Finite (of_int b)) = Finite (of_int (a * b)))
         \<and> fst (createOrder (Some (Finite 60)) 1000 1001 db0 1 shirt_dto) = Inr shirt_order
         \<and> pricing shirt_order =
             \<lparr>itemsTotal = Finite 130, deliveryCharge = Finite 60, grandTotal = Finite 190\<rparr>"
proof -
  have example: "fst (createOrder (Some (Finite 60)) 1000 1001 db0 1 shirt_dto) = Inr shirt_order"
    by (simp add: createOrder_def getClothingItemById_def getItemPrice_def validateOrder_def
        fresh_id_def Let_def toNumber_numeral example_defs)
  have example_pricing:
    "pricing shirt_order =
       \<lparr>itemsTotal = Finite 130, deliveryCharge = Finite 60, grandTotal = Finite 190\<rparr>"
    by (simp add: shirt_order_def)
  have exact_add: "\<forall>a b :: int. \<bar>a + b\<bar> < 2 ^ 53 \<longrightarrow>
               numAdd (Finite (of_int a)) (Finite (of_int b)) = Finite (of_int (a + b))"
    using numAdd_of_int by blast
  have exact_mul: "\<forall>a b :: int. \<bar>a * b\<bar> < 2 ^ 53 \<longrightarrow>
               numMul (Finite (of_int a)) (Finite (of_int b)) = Finite (of_int (a * b))"
    using numMul_of_int by blast
  from createOrder_Inr[OF assms] obtain its tot where
    p: "priceItems db (dto_items dto) [] (Finite 0) = Inr (its, tot)" and
    i: "items ord = its" and
    pr: "pricing ord = \<lparr>itemsTotal = tot,
                         deliveryCharge = (case cfg of None \<Rightarrow> Finite 60 | Some c \<Rightarrow> c),
                         grandTotal =
                           numAdd tot (case cfg of None \<Rightarrow> Finite 60 | Some c \<Rightarrow> c)\<rparr>"
    by blast
  from priceItems_Inr[OF p] have
    l: "list_all2 (pricedLine db) (dto_items dto) its" and
    t: "tot = foldl numAdd (Finite 0) (map subtotal its)" by auto
  have lines: "list_all2
           (\<lambda>line it.
              \<exists>ci ps.
                getClothingItemById db (clothingItemId line) = Inr ci
                \<and> map (\<lambda>s. getItemPrice db (clothingItemId line) s (category line))
                    (services line) = map Inr ps
                \<and> clothingItem it = clothingItemId line
                \<and> clothingItemName it = name_en ci
                \<and> oi_category it = category line
                \<and> oi_services it = services line
                \<and> oi_quantity it = quantity line
                \<and> unitPrice it = foldl numAdd (Finite 0) ps
                \<and> subtotal it = numMul (unitPrice it) (oi_quantity it))
           (dto_items dto) (items ord)"
    unfolding i using l by (rule list_all2_mono) (rule pricedLine_prices)
  have tot: "itemsTotal (pricing ord) = foldl numAdd (Finite 0) (map subtotal (items ord))"
    using pr t i by simp
  have ch: "deliveryCharge (pricing ord) = (case cfg of None \<Rightarrow> Finite 60 | Some c \<Rightarrow> c)"
    using pr by simp
  have gr: "grandTotal (pricing ord) =
             numAdd (itemsTotal (pricing ord)) (deliveryCharge (pricing ord))"
    using pr by simp
  show ?thesis
    using lines tot ch gr exact_add exact_mul example example_pricing by blast
qed

theorem createOrder_pricing_witness:
  "createOrder None 1000 1001 db0 1 shirt_dto = (Inr shirt_order, db1)
   \<and> map (\<lambda>s. getItemPrice db0 10 s MEN) [WASHING, IRONING] = [Inr (Finite 40), Inr (Finite 25)]
   \<and> unitPrice (hd (items shirt_order)) = numAdd (numAdd (Finite 0) (Finite 40)) (Finite 25)
   \<and> unitPrice (hd (items shirt_order)) = Finite 65
   \<and> subtotal (hd (items shirt_order)) = numMul (Finite 65) (Finite 2)
   \<and> subtotal (hd (items shirt_order)) = Finite 130
   \<and> itemsTotal (pricing shirt_order) = Finite 130
   \<and> deliveryCharge (pricing shirt_order) = Finite 60
   \<and> grandTotal (pricing shirt_order) = Finite 190
   \<and> grandTotal (pricing shirt_order)
       = numAdd (itemsTotal (pricing shirt_order)) (deliveryCharge (pricing shirt_order))"
proof -
  have g: "map (\<lambda>s. getItemPrice db0 10 s MEN) [WASHING, IRONING] = [Inr (Finite 40), Inr (Finite 25)]"
    by (simp add: getItemPrice_def db0_def)
  have gt: "grandTotal (pricing shirt_order)
       = numAdd (itemsTotal (pricing shirt_order)) (deliveryCharge (pricing shirt_order))"
    using createOrder_pricing[OF createOrder_shirt] by blast
  show ?thesis using createOrder_shirt g gt
    by (simp add: shirt_order_def toNumber_numeral)
qed

subsection \<open>Creating an order: empty requests\<close>

text \<open>
  Claim C6 says that a request with an empty items list is rejected and never produces a
  stored order. The schema marks \<open>items\<close> as \<open>required\<close>, but \<open>required\<close> on an array
  path accepts the empty array, the request body asks only for an array, and the loop of
  \<open>createOrder\<close> runs zero times: Alice's request with no lines is accepted and the
  order is stored with \<open>items = []\<close> and \<open>itemsTotal = 0\<close>.
\<close>

theorem createOrder_empty_items_accepted:
  "dto_items (shirt_dto\<lparr>dto_items := []\<rparr>) = []
   \<and> createOrder None 1000 1001 db0 1 (shirt_dto\<lparr>dto_items := []\<rparr>) =
       (Inr empty_order, db0\<lparr>orders := [empty_order]\<rparr>)
   \<and> items empty_order = []
   \<and> itemsTotal (pricing empty_order) = Finite 0"
  by (simp add: createOrder_def validateOrder_def fresh_id_def Let_def toNumber_numeral
      example_defs empty_order_def)

subsection \<open>The status history\<close>

text \<open>
  Claim C5. In every database that creation, status updates and assignments can lead to,
  every order has a status history of length at least 1 whose first entry is the
  \<open>REQUESTED\<close> entry with note "Order placed" and the customer as actor, and whose
  last entry carries the order's current status. A successful status update appends
  exactly one entry, with the new status, the current time, the given note (the empty
  string when none is given) and the caller as actor. No operation edits or removes an
  entry: after any operation the history of every order starts with its history before.
\<close>

theorem statusHistory_invariant:
  assumes "reachable db"
  shows "(\<forall>ord \<in> set (orders db).
            1 \<le> length (statusHistory ord)
            \<and> entry_status (hd (statusHistory ord)) = REQUESTED
            \<and> entry_note (hd (statusHistory ord)) = ''Order placed''
            \<and> updatedBy (hd (statusHistory ord)) = customer ord
            \<and> entry_status (last (statusHistory ord)) = status ord)
       \<and> (\<forall>now savedAt orderId dto user ord' db'.
            updateOrderStatus now savedAt db orderId dto user = (Inr ord', db') \<longrightarrow>
            (\<exists>ord. findById (orders db) orderId = Some ord
               \<and> statusHistory ord' = statusHistory ord @
                    [\<lparr>entry_status = dto_status dto, timestamp = now,
                      entry_note = (case dto_note dto of None \<Rightarrow> [] | Some n \<Rightarrow> n),
                      updatedBy = user_id user\<rparr>]
               \<and> status ord' = dto_status dto
               \<and> findById (orders db') orderId = Some ord'))
       \<and> (\<forall>db'. step db db' \<longrightarrow>
            (\<forall>ord \<in> set (orders db). \<exists>new \<in> set (orders db').
               order_id new = order_id ord
               \<and> (\<exists>es. statusHistory new = statusHistory ord @ es)))"
proof (intro conjI allI impI ballI)
  have ok: "storeOk db" using assms by (rule storeOk_reachable)
  {
    fix ord assume "ord \<in> set (orders db)"
    then have h: "historyOk ord" using ok by (simp add: storeOk_def)
    show "1 \<le> length (statusHistory ord)" using h by (simp add: historyOk_def)
    show "entry_status (hd (statusHistory ord)) = REQUESTED" using h by (simp add: historyOk_def)
    show "entry_note (hd (statusHistory ord)) = ''Order placed''" using h by (simp add: historyOk_def)
    show "updatedBy (hd (statusHistory ord)) = customer ord" using h by (simp add: historyOk_def)
    show "entry_status (last (statusHistory ord)) = status ord" using h by (simp add: historyOk_def)
  }
  {
    fix now savedAt orderId dto user ord' db'
    assume u: "updateOrderStatus now savedAt db orderId dto user = (Inr ord', db')"
    from updateOrderStatus_Inr[OF u] obtain ord where
      f: "findById (orders db) orderId = Some ord" and
      o: "ord' = ord\<lparr>status := dto_status dto,
                          statusHistory := statusHistory ord @ [statusEntry now dto user],
                          updatedAt := savedAt\<rparr>" and
      d: "db' = db\<lparr>orders := save_existing (orders db) ord'\<rparr>" by blast
    have i: "order_id ord' = orderId" using findById_id[OF f] o by simp
    have "findById (orders db') orderId = Some ord'"
      using findById_save_existing[OF f i] d by simp
    then show "\<exists>ord. findById (orders db) orderId = Some ord
               \<and> statusHistory ord' = statusHistory ord @
                    [\<lparr>entry_status = dto_status dto, timestamp = now,
                      entry_note = (case dto_note dto of None \<Rightarrow> [] | Some n \<Rightarrow> n),
                      updatedBy = user_id user\<rparr>]
               \<and> status ord' = dto_status dto
               \<and> findById (orders db') orderId = Some ord'"
      using f o by (simp add: statusEntry_def)
  }
  {
    fix db' ord
    assume "step db db'" "ord \<in> set (orders db)"
    then show "\<exists>new \<in> set (orders db'). order_id new = order_id ord
               \<and> (\<exists>es. statusHistory new = statusHistory ord @ es)"
      using step_extends[OF ok] by blast
  }
qed

theorem statusHistory_invariant_witness:
  "reachable db2
   \<and> orders db2 = [assigned_order]
   \<and> 1 \<le> length (statusHistory assigned_order)
   \<and> entry_status (hd (statusHistory assigned_order)) = REQUESTED
   \<and> entry_note (hd (statusHistory assigned_order)) = ''Order placed''
   \<and> updatedBy (hd (statusHistory assigned_order)) = customer assigned_order
   \<and> entry_status (last (statusHistory assigned_order)) = status assigned_order
   \<and> updateOrderStatus 2000 2001 db2 1 \<lparr>dto_status = PICKED_UP, dto_note = None\<rparr> dan =
       (Inr picked_order, db0\<lparr>orders := [picked_order]\<rparr>)
   \<and> statusHistory picked_order = statusHistory assigned_order @
       [\<lparr>entry_status = PICKED_UP, timestamp = 2000, entry_note = [], updatedBy = 2\<rparr>]
   \<and> entry_status (last (statusHistory picked_order)) = status picked_order"
proof -
  have o: "orders db2 = [assigned_order]" by (simp add: db2_def)
  have u: "updateOrderStatus 2000 2001 db2 1 \<lparr>dto_status = PICKED_UP, dto_note = None\<rparr> dan =
       (Inr picked_order, db0\<lparr>orders := [picked_order]\<rparr>)"
    by (simp add: updateOrderStatus_def findById_def save_existing_def isValidStatusTransition_def
        Let_def picked_order_def example_defs)
  have p: "statusHistory picked_order = statusHistory assigned_order @
       [\<lparr>entry_status = PICKED_UP, timestamp = 2000, entry_note = [], updatedBy = 2\<rparr>]"
    "entry_status (last (statusHistory picked_order)) = status picked_order"
    by (simp_all add: picked_order_def)
  from statusHistory_invariant[OF reachable_db2] o
  have "1 \<le> length (statusHistory assigned_order)
   \<and> entry_status (hd (statusHistory assigned_order)) = REQUESTED
   \<and> entry_note (hd (statusHistory assigned_order)) = ''Order placed''
   \<and> updatedBy (hd (statusHistory assigned_order)) = customer assigned_order
   \<and> entry_status (last (statusHistory assigned_order)) = status assigned_order"
    by simp
  then show ?thesis using reachable_db2 o u p by simp
qed

subsection \<open>Assigning a delivery person\<close>

text \<open>
  Claim C7 says that a successful assignment leaves every field but \<open>deliveryPerson\<close>
  unchanged. The schema has \<open>timestamps: true\<close>, so saving the modified document also
  stamps \<open>updatedAt\<close>: assigning Dan at time 3000 to the order last saved at 1001
  yields an order whose \<open>updatedAt\<close> is 3000.
\<close>

theorem assignDeliveryPerson_updatedAt_counterexample:
  "fst (assignDeliveryPerson 3000 db1 1 \<lparr>deliveryPersonId = 2\<rparr>) =
     Inr (shirt_order\<lparr>deliveryPerson := Some 2, updatedAt := 3000\<rparr>)
   \<and> updatedAt shirt_order = 1001
   \<and> fst (assignDeliveryPerson 3000 db1 1 \<lparr>deliveryPersonId = 2\<rparr>) \<noteq>
     Inr (shirt_order\<lparr>deliveryPerson := Some 2\<rparr>)"
  by (simp add: assignDeliveryPerson_def findById_def findUserById_def save_existing_def Let_def example_defs)

text \<open>
  Claim C7, as the code has it. \<open>assignDeliveryPerson\<close> fails with NotFound when the
  order does not exist, with NotFound when the order exists and the user does not, and
  with a BadRequest when both exist and the user lacks the delivery role; nothing is
  written then. Otherwise it succeeds, whatever the status of the order and whether or
  not somebody was assigned before: the saved order is the old one with
  \<open>deliveryPerson\<close> set and, when the assigned id differs from the one stored before,
  \<open>updatedAt\<close> set to the time of the save; every other field (\<open>status\<close> and
  \<open>statusHistory\<close> among them) is as before. It replaces the old order in the
  collection, the other orders staying as they are.
\<close>

theorem assignDeliveryPerson_effect:
  "(findById (orders db) orderId = None \<longrightarrow>
      assignDeliveryPerson savedAt db orderId dto =
        (Inl (NotFoundException ''Order not found''), db))
   \<and> (findById (orders db) orderId \<noteq> None
        \<and> findUserById (users db) (deliveryPersonId dto) = None \<longrightarrow>
      assignDeliveryPerson savedAt db orderId dto =
        (Inl (NotFoundException ''Delivery person not found''), db))
   \<and> (\<forall>person. findById (orders db) orderId \<noteq> None
        \<and> findUserById (users db) (deliveryPersonId dto) = Some person
        \<and> role person \<noteq> DELIVERY \<longrightarrow>
      assignDeliveryPerson savedAt db orderId dto =
        (Inl (BadRequestException ''User is not a delivery person''), db))
   \<and> (\<forall>ord person. findById (orders db) orderId = Some ord
        \<and> findUserById (users db) (deliveryPersonId dto) = Some person
        \<and> role person = DELIVERY \<longrightarrow>
      assignDeliveryPerson savedAt db orderId dto =
        (Inr (ord\<lparr>deliveryPerson := Some (deliveryPersonId dto),
                   updatedAt := (if deliveryPerson ord = Some (deliveryPersonId dto)
                                 then updatedAt ord else savedAt)\<rparr>),
         db\<lparr>orders :=
              map (\<lambda>x. if order_id x = orderId
                       then ord\<lparr>deliveryPerson := Some (deliveryPersonId dto),
                                 updatedAt :=
                                   (if deliveryPerson ord = Some (deliveryPersonId dto)
                                    then updatedAt ord else savedAt)\<rparr>
                       else x)
                (orders db)\<rparr>))"
proof (intro conjI allI impI)
  assume "findById (orders db) orderId = None"
  then show "assignDeliveryPerson savedAt db orderId dto =
        (Inl (NotFoundException ''Order not found''), db)"
    by (rule assign_order_missing)
next
  assume "findById (orders db) orderId \<noteq> None
        \<and> findUserById (users db) (deliveryPersonId dto) = None"
  then show "assignDeliveryPerson savedAt db orderId dto =
        (Inl (NotFoundException ''Delivery person not found''), db)"
    by (auto intro: assign_user_missing)
next
  fix person
  assume "findById (orders db) orderId \<noteq> None
        \<and> findUserById (users db) (deliveryPersonId dto) = Some person
        \<and> role person \<noteq> DELIVERY"
  then show "assignDeliveryPerson savedAt db orderId dto =
        (Inl (BadRequestException ''User is not a delivery person''), db)"
    by (auto intro: assign_wrong_role)
next
  fix ord person
  assume "findById (orders db) orderId = Some ord
        \<and> findUserById (users db) (deliveryPersonId dto) = Some person
        \<and> role person = DELIVERY"
  then show "assignDeliveryPerson savedAt db orderId dto =
        (Inr (ord\<lparr>deliveryPerson := Some (deliveryPersonId dto),
                   updatedAt := (if deliveryPerson ord = Some (deliveryPersonId dto)
                                 then updatedAt ord else savedAt)\<rparr>),
         db\<lparr>orders :=
              map (\<lambda>x. if order_id x = orderId
                       then ord\<lparr>deliveryPerson := Some (deliveryPersonId dto),
                                 updatedAt :=
                                   (if deliveryPerson ord = Some (deliveryPersonId dto)
                                    then updatedAt ord else savedAt)\<rparr>
                       else x)
                (orders db)\<rparr>)"
    by (intro assign_success) auto
qed

theorem assignDeliveryPerson_effect_witness:
  "assignDeliveryPerson 3000 db1 7 \<lparr>deliveryPersonId = 2\<rparr> =
     (Inl (NotFoundException ''Order not found''), db1)
   \<and> assignDeliveryPerson 3000 db1 1 \<lparr>deliveryPersonId = 9\<rparr> =
     (Inl (NotFoundException ''Delivery person not found''), db1)
   \<and> assignDeliveryPerson 3000 db1 1 \<lparr>deliveryPersonId = 1\<rparr> =
     (Inl (BadRequestException ''User is not a delivery person''), db1)
   \<and> assignDeliveryPerson 3000 db1 1 \<lparr>deliveryPersonId = 2\<rparr> = (Inr assigned_order, db2)
   \<and> assignDeliveryPerson 4000 db2 1 \<lparr>deliveryPersonId = 4\<rparr> =
     (Inr (assigned_order\<lparr>deliveryPerson := Some 4, updatedAt := 4000\<rparr>),
      db0\<lparr>orders := [assigned_order\<lparr>deliveryPerson := Some 4, updatedAt := 4000\<rparr>]\<rparr>)
   \<and> assignDeliveryPerson 4000 db2 1 \<lparr>deliveryPersonId = 2\<rparr> = (Inr assigned_order, db2)"
proof -
  have f7: "findById (orders db1) 7 = None"
    by (simp add: findById_def example_defs)
  have f1: "findById (orders db1) 1 = Some shirt_order"
    by (simp add: findById_def example_defs)
  have f2: "findById (orders db2) 1 = Some assigned_order"
    by (simp add: findById_def example_defs)
  have u9: "findUserById (users db1) 9 = None"
    by (simp add: findUserById_def example_defs)
  have u1: "findUserById (users db1) 1 = Some alice \<and> role alice \<noteq> DELIVERY"
    by (simp add: findUserById_def example_defs)
  have u2: "findUserById (users db1) 2 = Some dan \<and> role dan = DELIVERY"
    by (simp add: findUserById_def example_defs)
  have u2': "findUserById (users db2) 2 = Some dan"
    by (simp add: findUserById_def example_defs)
  have u4: "findUserById (users db2) 4 = Some eve \<and> role eve = DELIVERY"
    by (simp add: findUserById_def example_defs)
  show ?thesis
    using f7 f1 f2 u9 u1 u2 u2' u4
      assignDeliveryPerson_effect [of db1 7 3000 "\<lparr>deliveryPersonId = 2\<rparr>"]
      assignDeliveryPerson_effect [of db1 1 3000 "\<lparr>deliveryPersonId = 9\<rparr>"]
      assignDeliveryPerson_effect [of db1 1 3000 "\<lparr>deliveryPersonId = 1\<rparr>"]
      assignDeliveryPerson_effect [of db1 1 3000 "\<lparr>deliveryPersonId = 2\<rparr>"]
      assignDeliveryPerson_effect [of db2 1 4000 "\<lparr>deliveryPersonId = 4\<rparr>"]
      assignDeliveryPerson_effect [of db2 1 4000 "\<lparr>deliveryPersonId = 2\<rparr>"]
    by (simp add: example_defs)
qed

subsection \<open>Reading an order\<close>

text \<open>
  Claim C9. For an existing order whose references resolve (its customer is a stored
  user, and so is its delivery person when it has one; the code base never deletes a
  user), \<open>getOrderById\<close> returns the order to its customer, to its assigned delivery
  person and to an administrator, and fails with Forbidden for every other caller. In
  particular a caller with the delivery role who is not the customer receives Forbidden
  while the order is unassigned and \<open>REQUESTED\<close>.
\<close>

theorem getOrderById_access:
  assumes "findById (orders db) orderId = Some ord"
      and "findUserById (users db) (customer ord) = Some c"
      and "\<forall>d. deliveryPerson ord = Some d \<longrightarrow> findUserById (users db) d \<noteq> None"
  shows "getOrderById db orderId user =
           (if user_id user = customer ord \<or> deliveryPerson ord = Some (user_id user)
               \<or> role user = ADMIN
            then Inr \<lparr>doc = ord, customerDoc = Some c,
                      deliveryPersonDoc =
                        (case deliveryPerson ord of
                           None \<Rightarrow> None
                         | Some d \<Rightarrow> findUserById (users db) d)\<rparr>
            else Inl (ForbiddenException ''Access denied to this order''))
         \<and> (role user = DELIVERY \<and> deliveryPerson ord = None \<and> status ord = REQUESTED
              \<and> user_id user \<noteq> customer ord \<longrightarrow>
            getOrderById db orderId user = Inl (ForbiddenException ''Access denied to this order''))"
  using assms findUserById_id[of "users db"]
  by (auto simp: getOrderById_def Let_def split: option.splits)

theorem getOrderById_access_witness:
  "findById (orders db2) 1 = Some assigned_order
   \<and> findUserById (users db2) (customer assigned_order) = Some alice
   \<and> getOrderById db2 1 alice = Inr \<lparr>doc = assigned_order, customerDoc = Some alice, deliveryPersonDoc = Some dan\<rparr>
   \<and> getOrderById db2 1 dan = Inr \<lparr>doc = assigned_order, customerDoc = Some alice, deliveryPersonDoc = Some dan\<rparr>
   \<and> getOrderById db2 1 adam = Inr \<lparr>doc = assigned_order, customerDoc = Some alice, deliveryPersonDoc = Some dan\<rparr>
   \<and> getOrderById db2 1 eve = Inl (ForbiddenException ''Access denied to this order'')
   \<and> getOrderById db1 1 eve = Inl (ForbiddenException ''Access denied to this order'')"
proof -
  have f2: "findById (orders db2) 1 = Some assigned_order"
    by (simp add: findById_def example_defs)
  have c2: "findUserById (users db2) (customer assigned_order) = Some alice"
    by (simp add: findUserById_def example_defs)
  have d2: "\<forall>d. deliveryPerson assigned_order = Some d \<longrightarrow> findUserById (users db2) d \<noteq> None"
    by (simp add: findUserById_def example_defs)
  have f1: "findById (orders db1) 1 = Some shirt_order"
    by (simp add: findById_def example_defs)
  have c1: "findUserById (users db1) (customer shirt_order) = Some alice"
    by (simp add: findUserById_def example_defs)
  have d1: "\<forall>d. deliveryPerson shirt_order = Some d \<longrightarrow> findUserById (users db1) d \<noteq> None"
    by (simp add: findUserById_def example_defs)
  have dd: "findUserById (users db2) 2 = Some dan"
    by (simp add: findUserById_def example_defs)
  show ?thesis
    using f2 c2 dd
      getOrderById_access [OF f2 c2 d2, of alice]
      getOrderById_access [OF f2 c2 d2, of dan]
      getOrderById_access [OF f2 c2 d2, of adam]
      getOrderById_access [OF f2 c2 d2, of eve]
      getOrderById_access [OF f1 c1 d1, of eve]
    by (simp add: example_defs)
qed

subsection \<open>Order statistics\<close>

text \<open>
  Claim C8. For every order collection \<open>getOrderStats\<close> returns the number of
  \<open>REQUESTED\<close> orders as \<open>pendingOrders\<close>, the sum of the \<open>PICKED_UP\<close>,
  \<open>IN_LAUNDRY\<close> and \<open>OUT_FOR_DELIVERY\<close> counts as \<open>inProgressOrders\<close>, the
  \<open>DELIVERED\<close> count as \<open>completedOrders\<close> and the \<open>CANCELLED\<close> count as
  \<open>cancelledOrders\<close>; \<open>totalOrders\<close> is the sum of the counts of the groups, which
  is the sum of the six status counts and the size of the collection. Three
  \<open>REQUESTED\<close>, two \<open>DELIVERED\<close> and one \<open>CANCELLED\<close> order give 6, 3, 0, 2, 1.
\<close>

theorem getOrderStats_rollups:
  "pendingOrders (getOrderStats today dbSum db) = countWithStatus db REQUESTED
   \<and> inProgressOrders (getOrderStats today dbSum db) =
       countWithStatus db PICKED_UP + countWithStatus db IN_LAUNDRY
         + countWithStatus db OUT_FOR_DELIVERY
   \<and> completedOrders (getOrderStats today dbSum db) = countWithStatus db DELIVERED
   \<and> cancelledOrders (getOrderStats today dbSum db) = countWithStatus db CANCELLED
   \<and> totalOrders (getOrderStats today dbSum db) = sum_list (map snd (groupByStatus (orders db)))
   \<and> totalOrders (getOrderStats today dbSum db) = sum_list (map (countWithStatus db) all_statuses)
   \<and> totalOrders (getOrderStats today dbSum db) = length (orders db)
   \<and> map status (orders stats_db) =
       [REQUESTED, DELIVERED, REQUESTED, CANCELLED, DELIVERED, REQUESTED]
   \<and> getOrderStats 2000 dbSum stats_db =
       \<lparr>totalOrders = 6, pendingOrders = 3, inProgressOrders = 0, completedOrders = 2,
        cancelledOrders = 1, todayOrders = 0, todayRevenue = Finite 0\<rparr>"
proof -
  have sc: "statusCountsOf (groupByStatus (orders db)) = groupByStatus (orders db)"
    by (rule statusCountsOf_groups)
  have tot: "totalOrders (getOrderStats today dbSum db) = sum_list (map snd (groupByStatus (orders db)))"
    by (simp add: getOrderStats_def Let_def sc foldl_plus_nat)
  have cnt: "\<And>k. countOr0 (groupByStatus (orders db)) k = countWithStatus db k"
    by (simp add: countOr0_groupByStatus countWithStatus_def)
  have len: "sum_list (map (countWithStatus db) all_statuses) = length (orders db)"
    using length_by_status[of "orders db"] by (simp add: countWithStatus_def[abs_def])
  have ex1: "map status (orders stats_db) =
       [REQUESTED, DELIVERED, REQUESTED, CANCELLED, DELIVERED, REQUESTED]"
    by (simp add: stats_db_def)
  have ex2: "getOrderStats 2000 dbSum stats_db =
       \<lparr>totalOrders = 6, pendingOrders = 3, inProgressOrders = 0, completedOrders = 2,
        cancelledOrders = 1, todayOrders = 0, todayRevenue = Finite 0\<rparr>"
    by (simp add: getOrderStats_def Let_def stats_db_def groupByStatus_def statusCountsOf_def
        countOr0_def shirt_order_def)
  show ?thesis
    using tot len ex1 ex2
    by (simp add: getOrderStats_def Let_def sc cnt sum_groupByStatus)
qed

subsection \<open>Unassigned orders\<close>

text \<open>
  Claim C10. The unassigned-orders listing holds exactly the stored orders with no
  delivery person and status \<open>REQUESTED\<close> (each as often as it is stored), sorted by
  creation time, oldest first; an unassigned order in any other status is not in it.
\<close>

theorem getUnassignedOrders_exact:
  "mset (map doc (getUnassignedOrders db)) = mset (filter isUnassignedRequest (orders db))
   \<and> doc ` set (getUnassignedOrders db) = {ord \<in> set (orders db). isUnassignedRequest ord}
   \<and> sorted (map (\<lambda>p. createdAt (doc p)) (getUnassignedOrders db))
   \<and> (\<forall>ord \<in> set (orders db).
         deliveryPerson ord = None \<and> status ord \<noteq> REQUESTED \<longrightarrow>
         ord \<notin> doc ` set (getUnassignedOrders db))"
proof -
  have d: "map doc (getUnassignedOrders db) = sort_key createdAt (filter isUnassignedRequest (orders db))"
    by (simp add: doc_getUnassignedOrders isUnassignedRequest_def[abs_def])
  have m: "mset (map doc (getUnassignedOrders db)) = mset (filter isUnassignedRequest (orders db))"
    by (simp add: d)
  have s: "doc ` set (getUnassignedOrders db) = {ord \<in> set (orders db). isUnassignedRequest ord}"
    using arg_cong[OF d, of set] by auto
  have "sorted (map createdAt (map doc (getUnassignedOrders db)))"
    unfolding d by (rule sorted_sort_key)
  then have so: "sorted (map (\<lambda>p. createdAt (doc p)) (getUnassignedOrders db))"
    by (simp add: o_def)
  show ?thesis using m s so by (auto simp: isUnassignedRequest_def)
qed

theorem getUnassignedOrders_exact_witness:
  "map doc (getUnassignedOrders queue_db) =
     [shirt_order\<lparr>order_id := 4, createdAt := 500\<rparr>, shirt_order]
   \<and> shirt_order\<lparr>order_id := 3, status := CANCELLED\<rparr> \<in> set (orders queue_db)
   \<and> deliveryPerson (shirt_order\<lparr>order_id := 3, status := CANCELLED\<rparr>) = None
   \<and> shirt_order\<lparr>order_id := 3, status := CANCELLED\<rparr> \<notin> doc ` set (getUnassignedOrders queue_db)
   \<and> sorted (map (\<lambda>p. createdAt (doc p)) (getUnassignedOrders queue_db))"
proof -
  have e: "map doc (getUnassignedOrders queue_db) =
     [shirt_order\<lparr>order_id := 4, createdAt := 500\<rparr>, shirt_order]"
    by (simp add: doc_getUnassignedOrders queue_db_def shirt_order_def assigned_order_def)
  have i: "shirt_order\<lparr>order_id := 3, status := CANCELLED\<rparr> \<in> set (orders queue_db)"
    by (simp add: queue_db_def)
  have n: "deliveryPerson (shirt_order\<lparr>order_id := 3, status := CANCELLED\<rparr>) = None
      \<and> status (shirt_order\<lparr>order_id := 3, status := CANCELLED\<rparr>) \<noteq> REQUESTED"
    by (simp add: shirt_order_def)
  show ?thesis
    using e i n getUnassignedOrders_exact[of queue_db] by blast
qed

end
